theory Spec2Isabelle
  imports Main "HOL-Library.Word"
begin

unbundle bit_operations_syntax

section \<open>The permission policy data model\<close>

text \<open>
  The authorization engine of \<^verbatim>\<open>alljoyn_core/src/PermissionManager.cc\<close>.
  The classes \<^verbatim>\<open>PermissionPolicy::Rule::Member\<close>, \<^verbatim>\<open>Rule\<close>, \<^verbatim>\<open>Peer\<close> and
  \<^verbatim>\<open>Acl\<close> are read through their getters only; each becomes a record whose fields carry
  the getters' names. Arrays with a size become lists.
\<close>

datatype MemberType = NOT_SPECIFIED | METHOD_CALL | SIGNAL | PROPERTY

record Member =
  GetMemberName :: string
  GetMemberType :: MemberType
  GetActionMask :: "8 word"

record Rule =
  GetObjPath :: string
  GetInterfaceName :: string
  GetMembers :: "Member list"

text \<open>
  \<^verbatim>\<open>struct Request\<close>. \<^verbatim>\<open>objPath\<close> and \<^verbatim>\<open>iName\<close> are C strings that are never null
  when the matcher reads them; \<^verbatim>\<open>mbrName\<close> may be the null pointer (\<open>None\<close>), which the
  code tests for.
\<close>

record Request =
  outgoing :: bool
  propertyRequest :: bool
  isSetProperty :: bool
  objPath :: string
  iName :: string
  mbrName :: "string option"
  mbrType :: MemberType

section \<open>The rule matcher\<close>

text \<open>
  \<^verbatim>\<open>WildcardMatch\<close> is declared in \<^verbatim>\<open>BusUtil.h\<close> and defined outside
  \<^verbatim>\<open>PermissionManager.cc\<close>; every function that reaches it takes it as a parameter.
  It follows the \<^verbatim>\<open>strcmp\<close> convention (false on a match), so
  \<^verbatim>\<open>MatchesPrefix\<close> negates it.
\<close>

type_synonym wildcard = "string \<Rightarrow> string \<Rightarrow> bool"

definition MatchesPrefix :: "wildcard \<Rightarrow> string \<Rightarrow> string \<Rightarrow> bool" where
  "MatchesPrefix WildcardMatch str pfx = (\<not> WildcardMatch str pfx)"

definition IsActionDenied :: "8 word \<Rightarrow> bool" where
  "IsActionDenied allowedActions = (allowedActions = 0)"

definition IsActionAllowed :: "8 word \<Rightarrow> 8 word \<Rightarrow> bool" where
  "IsActionAllowed allowedActions requestedAction =
     (allowedActions AND requestedAction = requestedAction)"

text \<open>
  The member loop of the GetAllProperties branch (request without a member name). The
  result pairs the returned value with the \<^verbatim>\<open>denied\<close> reference parameter.
\<close>

fun ScanMembersGetAll ::
  "8 word \<Rightarrow> bool \<Rightarrow> bool \<Rightarrow> Member list \<Rightarrow> bool \<Rightarrow> bool \<Rightarrow> bool \<times> bool" where
  "ScanMembersGetAll requiredAuth scanForDenied strict [] allowed denied = (allowed, denied)"
| "ScanMembersGetAll requiredAuth scanForDenied strict (m # ms) allowed denied =
     (if GetMemberName m = [] then
        ScanMembersGetAll requiredAuth scanForDenied strict ms allowed denied
      else if GetMemberName m = ''*'' then
        (if scanForDenied \<and> IsActionDenied (GetActionMask m) then (False, True)
         else if GetMemberType m \<noteq> PROPERTY \<and> GetMemberType m \<noteq> NOT_SPECIFIED then
           ScanMembersGetAll requiredAuth scanForDenied strict ms allowed denied
         else
           (let allowed' = (if \<not> allowed then IsActionAllowed (GetActionMask m) requiredAuth
                            else allowed)
            in if allowed' \<and> \<not> scanForDenied then (allowed', denied)
               else ScanMembersGetAll requiredAuth scanForDenied strict ms allowed' denied))
      else
        (let allowed' = (if \<not> strict then True else allowed)
         in if allowed' \<and> \<not> scanForDenied then (allowed', denied)
            else ScanMembersGetAll requiredAuth scanForDenied strict ms allowed' denied))"

text \<open>The member loop for a request that names its member.\<close>

fun ScanMembersNamed ::
  "wildcard \<Rightarrow> string \<Rightarrow> MemberType \<Rightarrow> 8 word \<Rightarrow> bool \<Rightarrow> Member list \<Rightarrow> bool \<Rightarrow> bool
     \<Rightarrow> bool \<times> bool" where
  "ScanMembersNamed wm name ty requiredAuth scanForDenied [] allowed denied = (allowed, denied)"
| "ScanMembersNamed wm name ty requiredAuth scanForDenied (m # ms) allowed denied =
     (if GetMemberName m = [] then
        ScanMembersNamed wm name ty requiredAuth scanForDenied ms allowed denied
      else if \<not> (GetMemberName m = name \<or> MatchesPrefix wm name (GetMemberName m)) then
        ScanMembersNamed wm name ty requiredAuth scanForDenied ms allowed denied
      else if GetMemberType m \<noteq> NOT_SPECIFIED \<and> ty \<noteq> GetMemberType m then
        ScanMembersNamed wm name ty requiredAuth scanForDenied ms allowed denied
      else if scanForDenied \<and> GetMemberName m = ''*'' \<and> IsActionDenied (GetActionMask m) then
        (False, True)
      else
        (let allowed' = (if \<not> allowed then IsActionAllowed (GetActionMask m) requiredAuth
                         else allowed)
         in if allowed' \<and> \<not> scanForDenied then (allowed', denied)
            else ScanMembersNamed wm name ty requiredAuth scanForDenied ms allowed' denied))"

text \<open>
  \<^verbatim>\<open>IsRuleMatched\<close>. \<open>QualifiedForDenied\<close> is the value the by-value parameter
  \<^verbatim>\<open>scanForDenied\<close> holds after the block that resets it.
\<close>

definition QualifiedForDenied :: "Rule \<Rightarrow> bool \<Rightarrow> bool" where
  "QualifiedForDenied rule scanForDenied =
     (if scanForDenied then
        (if GetObjPath rule \<noteq> ''*'' then False
         else if GetInterfaceName rule \<noteq> ''*'' then False
         else True)
      else False)"

definition IsRuleMatched ::
  "wildcard \<Rightarrow> Rule \<Rightarrow> Request \<Rightarrow> 8 word \<Rightarrow> bool \<Rightarrow> bool \<Rightarrow> bool \<Rightarrow> bool \<times> bool" where
  "IsRuleMatched wm rule request requiredAuth scanForDenied denied strictGetAllProperties =
     (if length (GetMembers rule) = 0 then (False, denied)
      else if GetObjPath rule = [] then (False, denied)
      else if GetInterfaceName rule = [] then (False, denied)
      else if \<not> (GetObjPath rule = objPath request
                  \<or> MatchesPrefix wm (objPath request) (GetObjPath rule)) then (False, denied)
      else if \<not> (GetInterfaceName rule = iName request
                  \<or> MatchesPrefix wm (iName request) (GetInterfaceName rule)) then (False, denied)
      else
        (let scan = QualifiedForDenied rule scanForDenied;
             getAll = (if \<not> propertyRequest request then (False, denied)
                       else ScanMembersGetAll requiredAuth scan strictGetAllProperties
                              (GetMembers rule) False denied)
         in case mbrName request of
              None \<Rightarrow> getAll
            | Some name \<Rightarrow>
                if length name = 0 then getAll
                else ScanMembersNamed wm name (mbrType request) requiredAuth scan
                       (GetMembers rule) False denied))"

section \<open>The ACL evaluator\<close>

datatype PeerType =
  PEER_ALL | PEER_ANY_TRUSTED | PEER_FROM_CERTIFICATE_AUTHORITY | PEER_WITH_PUBLIC_KEY
  | PEER_WITH_MEMBERSHIP

text \<open>
  An ECC public key is its two coordinates; a GUID is a number. \<^verbatim>\<open>GetKeyInfo\<close> returns a
  pointer that may be null; the model keeps the public key found behind it.
\<close>

type_synonym ECCPublicKey = "nat \<times> nat"
type_synonym GUID128 = nat

record Peer =
  GetType :: PeerType
  GetKeyInfo :: "ECCPublicKey option"
  GetSecurityGroupId :: GUID128

record Acl =
  GetPeers :: "Peer list"
  GetRules :: "Rule list"

record PermissionPolicy =
  GetAcls :: "Acl list"

text \<open>The rule loop of \<^verbatim>\<open>IsPolicyAclMatched\<close>, with its accumulator \<^verbatim>\<open>allowed\<close>.\<close>

fun ScanRules ::
  "wildcard \<Rightarrow> Request \<Rightarrow> 8 word \<Rightarrow> bool \<Rightarrow> bool \<Rightarrow> Rule list \<Rightarrow> bool \<Rightarrow> bool
     \<Rightarrow> bool \<times> bool" where
  "ScanRules wm request requiredAuth scanForDenied strict [] allowed denied = (allowed, denied)"
| "ScanRules wm request requiredAuth scanForDenied strict (rule # rules) allowed denied =
     (case IsRuleMatched wm rule request requiredAuth scanForDenied denied strict of
        (matched, denied') \<Rightarrow>
          if matched then
            ScanRules wm request requiredAuth scanForDenied strict rules True denied'
          else if denied' then (allowed, denied')
          else ScanRules wm request requiredAuth scanForDenied strict rules allowed denied')"

definition IsPolicyAclMatched ::
  "wildcard \<Rightarrow> Acl \<Rightarrow> Request \<Rightarrow> 8 word \<Rightarrow> bool \<Rightarrow> bool \<Rightarrow> bool \<times> bool" where
  "IsPolicyAclMatched wm acl request requiredAuth scanForDenied denied =
     (let strictGetAllProperties = outgoing request
      in ScanRules wm request requiredAuth scanForDenied strictGetAllProperties
           (GetRules acl) False denied)"

section \<open>The peer qualifier\<close>

datatype CertificateType =
  UNRESTRICTED_CERTIFICATE | IDENTITY_CERTIFICATE | MEMBERSHIP_CERTIFICATE | INVALID_CERTIFICATE

record Certificate =
  GetCertType :: CertificateType
  GetGuild :: GUID128

record GuildMetadata =
  certChain :: "Certificate list"

text \<open>
  What the code reads of \<^verbatim>\<open>_PeerState\<close>. \<^verbatim>\<open>guildMap\<close> is listed in iteration order;
  a manifest is the list of its rules.
\<close>

record PeerState =
  IsLocalPeer :: bool
  GetGuid :: GUID128
  GetAuthSuite :: "32 word"
  guildMap :: "GuildMetadata list"
  GetManifests :: "Rule list list"

fun ScanIssuerChain :: "ECCPublicKey \<Rightarrow> ECCPublicKey list \<Rightarrow> bool" where
  "ScanIssuerChain key [] = False"
| "ScanIssuerChain key (k # ks) = (if key = k then True else ScanIssuerChain key ks)"

fun ScanGuildMap :: "GUID128 \<Rightarrow> GuildMetadata list \<Rightarrow> bool" where
  "ScanGuildMap securityGroupId [] = False"
| "ScanGuildMap securityGroupId (metadata # rest) =
     (case certChain metadata of
        [] \<Rightarrow> ScanGuildMap securityGroupId rest
      | cert # _ \<Rightarrow>
          if GetCertType cert \<noteq> MEMBERSHIP_CERTIFICATE then ScanGuildMap securityGroupId rest
          else if securityGroupId = GetGuild cert then True
          else ScanGuildMap securityGroupId rest)"

text \<open>
  The peer loop of \<^verbatim>\<open>IsPeerQualifiedForAcl\<close>. The second component is the reference
  parameter \<^verbatim>\<open>qualifiedPeerWithPublicKey\<close>, which the function clears on entry.
\<close>

fun ScanPeers ::
  "PeerState \<Rightarrow> bool \<Rightarrow> ECCPublicKey option \<Rightarrow> ECCPublicKey list \<Rightarrow> Peer list \<Rightarrow> bool \<times> bool" where
  "ScanPeers peerState trustedPeer peerPublicKey issuerChain [] = (False, False)"
| "ScanPeers peerState trustedPeer peerPublicKey issuerChain (p # rest) =
     (if GetType p = PEER_ALL then (True, False)
      else if \<not> trustedPeer then ScanPeers peerState trustedPeer peerPublicKey issuerChain rest
      else if GetType p = PEER_ANY_TRUSTED then (True, False)
      else
        (case peerPublicKey of
           None \<Rightarrow> ScanPeers peerState trustedPeer peerPublicKey issuerChain rest
         | Some key \<Rightarrow>
             if GetType p = PEER_WITH_PUBLIC_KEY \<and> GetKeyInfo p = Some key then (True, True)
             else if GetType p = PEER_FROM_CERTIFICATE_AUTHORITY
                     \<and> (case GetKeyInfo p of None \<Rightarrow> False
                         | Some ca \<Rightarrow> ScanIssuerChain ca issuerChain) then (True, False)
             else if GetType p = PEER_WITH_MEMBERSHIP
                     \<and> ScanGuildMap (GetSecurityGroupId p) (guildMap peerState) then (True, False)
             else ScanPeers peerState trustedPeer peerPublicKey issuerChain rest))"

definition IsPeerQualifiedForAcl ::
  "Acl \<Rightarrow> PeerState \<Rightarrow> bool \<Rightarrow> ECCPublicKey option \<Rightarrow> ECCPublicKey list \<Rightarrow> bool \<times> bool" where
  "IsPeerQualifiedForAcl acl peerState trustedPeer peerPublicKey issuerChain =
     ScanPeers peerState trustedPeer peerPublicKey issuerChain (GetPeers acl)"

section \<open>The policy evaluator\<close>

fun ScanAcls ::
  "wildcard \<Rightarrow> Request \<Rightarrow> PeerState \<Rightarrow> bool \<Rightarrow> ECCPublicKey option \<Rightarrow> ECCPublicKey list
     \<Rightarrow> 8 word \<Rightarrow> Acl list \<Rightarrow> bool \<Rightarrow> bool \<Rightarrow> bool \<times> bool" where
  "ScanAcls wm request peerState trustedPeer key chain requiredAuth [] allowed denied =
     (allowed, denied)"
| "ScanAcls wm request peerState trustedPeer key chain requiredAuth (acl # acls) allowed denied =
     (case IsPeerQualifiedForAcl acl peerState trustedPeer key chain of
        (qualified, qualifiedPeerWithPublicKey) \<Rightarrow>
          if \<not> qualified then
            ScanAcls wm request peerState trustedPeer key chain requiredAuth acls allowed denied
          else
            (case IsPolicyAclMatched wm acl request requiredAuth qualifiedPeerWithPublicKey denied
             of (matched, denied') \<Rightarrow>
               (let allowed' = (if matched then True else allowed)
                in if denied' then (allowed', denied')
                   else ScanAcls wm request peerState trustedPeer key chain requiredAuth acls
                          allowed' denied')))"

definition IsPeerAuthorized ::
  "wildcard \<Rightarrow> Request \<Rightarrow> PermissionPolicy \<Rightarrow> PeerState \<Rightarrow> bool \<Rightarrow> ECCPublicKey option
     \<Rightarrow> ECCPublicKey list \<Rightarrow> 8 word \<Rightarrow> bool \<times> bool" where
  "IsPeerAuthorized wm request policy peerState trustedPeer peerPublicKey issuerChain requiredAuth =
     ScanAcls wm request peerState trustedPeer peerPublicKey issuerChain requiredAuth
       (GetAcls policy) False False"

section \<open>The manifest evaluator\<close>

record Right =
  authByPolicy :: "8 word"

text \<open>
  The two nested loops of \<^verbatim>\<open>IsAuthorizedByPeerManifest\<close>. \<open>None\<close> stands for the
  \<^verbatim>\<open>return false\<close> inside the loops; \<open>Some allowed\<close> is the accumulator when a loop
  runs to its end.
\<close>

fun ScanManifestRules ::
  "wildcard \<Rightarrow> Request \<Rightarrow> Right \<Rightarrow> bool \<Rightarrow> Rule list \<Rightarrow> bool \<Rightarrow> bool option" where
  "ScanManifestRules wm request right strict [] allowed = Some allowed"
| "ScanManifestRules wm request right strict (rule # rules) allowed =
     (case IsRuleMatched wm rule request (authByPolicy right) False False strict of
        (matched, denied) \<Rightarrow>
          if matched then ScanManifestRules wm request right strict rules True
          else if denied then None
          else ScanManifestRules wm request right strict rules allowed)"

fun ScanManifests ::
  "wildcard \<Rightarrow> Request \<Rightarrow> Right \<Rightarrow> Rule list list \<Rightarrow> bool \<Rightarrow> bool option" where
  "ScanManifests wm request right [] allowed = Some allowed"
| "ScanManifests wm request right (peerManifest # rest) allowed =
     (let strictGetAllProperties = outgoing request
      in case ScanManifestRules wm request right strictGetAllProperties peerManifest allowed of
           None \<Rightarrow> None
         | Some allowed' \<Rightarrow> ScanManifests wm request right rest allowed')"

definition IsAuthorizedByPeerManifest :: "wildcard \<Rightarrow> Request \<Rightarrow> Right \<Rightarrow> PeerState \<Rightarrow> bool" where
  "IsAuthorizedByPeerManifest wm request right peerState =
     (case ScanManifests wm request right (GetManifests peerState) False of
        None \<Rightarrow> False
      | Some allowed \<Rightarrow> allowed)"

section \<open>The authorization orchestrator\<close>

text \<open>
  The status codes the code names, and \<open>ER_OTHER\<close> for any further code a collaborator
  may report.
\<close>

datatype QStatus =
  ER_OK | ER_FAIL | ER_INVALID_DATA | ER_PERMISSION_DENIED | ER_BUS_KEY_UNAVAILABLE
  | ER_OTHER nat

text \<open>
  The constants the code takes from other headers (\<^verbatim>\<open>PermissionPolicy.h\<close>,
  \<^verbatim>\<open>AllJoynStd.h\<close>, \<^verbatim>\<open>DBusStd.h\<close>, the authentication mechanisms,
  \<^verbatim>\<open>PermissionConfigurator.h\<close>). They are a parameter of every function that reads
  one, so each result below holds for every value they may have.
\<close>

record Constants =
  ACTION_PROVIDE :: "8 word"
  ACTION_OBSERVE :: "8 word"
  ACTION_MODIFY :: "8 word"
  Bus_InterfaceName :: string
  Daemon_InterfaceName :: string
  Daemon_Debug_InterfaceName :: string
  Bus_Peer_Authentication_InterfaceName :: string
  Bus_Peer_Session_InterfaceName :: string
  allseen_Introspectable_InterfaceName :: string
  Bus_Peer_HeaderCompression_InterfaceName :: string
  DBus_InterfaceName :: string
  DBus_Peer_InterfaceName :: string
  DBus_Introspectable_InterfaceName :: string
  DBus_Properties_InterfaceName :: string
  Security_Application_InterfaceName :: string
  Security_ClaimableApplication_InterfaceName :: string
  Security_ManagedApplication_InterfaceName :: string
  KeyExchangerECDHE_PSK_AuthName :: string
  AuthMechSRP_AuthName :: string
  AuthMechLogon_AuthName :: string
  AUTH_SUITE_ECDHE_NULL :: "32 word"
  AUTH_SUITE_ECDHE_PSK :: "32 word"
  AUTH_SUITE_ECDHE_SPEKE :: "32 word"
  AUTH_SUITE_ECDHE_ECDSA :: "32 word"
  CAPABLE_ECDHE_NULL :: "16 word"
  CAPABLE_ECDHE_PSK :: "16 word"
  CAPABLE_ECDHE_SPEKE :: "16 word"
  CAPABLE_ECDHE_ECDSA :: "16 word"

text \<open>\<^verbatim>\<open>GenRight\<close> writes into the \<^verbatim>\<open>Right\<close> it is given and leaves it alone otherwise.\<close>

definition GenRight :: "Constants \<Rightarrow> Request \<Rightarrow> Right \<Rightarrow> Right" where
  "GenRight C request right =
     (if propertyRequest request then
        (if mbrType request = SIGNAL then
           (if outgoing request then right\<lparr>authByPolicy := ACTION_OBSERVE C\<rparr>
            else right\<lparr>authByPolicy := ACTION_PROVIDE C\<rparr>)
         else if isSetProperty request then
           (if outgoing request then right\<lparr>authByPolicy := ACTION_PROVIDE C\<rparr>
            else right\<lparr>authByPolicy := ACTION_MODIFY C\<rparr>)
         else
           (if outgoing request then right\<lparr>authByPolicy := ACTION_PROVIDE C\<rparr>
            else right\<lparr>authByPolicy := ACTION_OBSERVE C\<rparr>))
      else if mbrType request = METHOD_CALL then
        (if outgoing request then right\<lparr>authByPolicy := ACTION_PROVIDE C\<rparr>
         else right\<lparr>authByPolicy := ACTION_MODIFY C\<rparr>)
      else if mbrType request = SIGNAL then
        (if outgoing request then right\<lparr>authByPolicy := ACTION_OBSERVE C\<rparr>
         else right\<lparr>authByPolicy := ACTION_PROVIDE C\<rparr>)
      else right)"

text \<open>
  What the code asks of \<^verbatim>\<open>PermissionMgmtObj\<close>: each field is the answer of the call of
  that name (status first, then the output parameters the code reads).
  \<^verbatim>\<open>GetConnectedPeerAuthMetadata\<close> answers with the authentication mechanism, the
  \<^verbatim>\<open>publicKeyFound\<close> flag, the peer's public key and the issuers' public keys.
\<close>

record PermissionMgmtObj =
  HasTrustAnchors :: bool
  GetPublicKey :: "QStatus \<times> ECCPublicKey"
  GetConnectedPeerAuthMetadata ::
    "GUID128 \<Rightarrow> QStatus \<times> string \<times> bool \<times> ECCPublicKey \<times> ECCPublicKey list"
  GetClaimCapabilities :: "QStatus \<times> 16 word"

text \<open>
  The trust resolution block of \<^verbatim>\<open>IsAuthorized\<close> (the statements between the policy
  check and the call of \<^verbatim>\<open>IsPeerAuthorized\<close>): it yields \<^verbatim>\<open>trustedPeer\<close>,
  \<^verbatim>\<open>trustedPeerPublicKey\<close>, \<^verbatim>\<open>issuerPublicKeys\<close> and \<^verbatim>\<open>enforceManifest\<close>.
\<close>

definition ResolveTrust ::
  "Constants \<Rightarrow> PermissionMgmtObj \<Rightarrow> PeerState \<Rightarrow> bool
     \<Rightarrow> bool \<times> ECCPublicKey option \<times> ECCPublicKey list \<times> bool" where
  "ResolveTrust C permissionMgmtObj peerState authenticated =
     (if authenticated then
        (if IsLocalPeer peerState then
           (case GetPublicKey permissionMgmtObj of
              (status, publicKey) \<Rightarrow>
                if ER_OK = status then (True, Some publicKey, [], False)
                else (False, None, [], True))
         else
           (case GetConnectedPeerAuthMetadata permissionMgmtObj (GetGuid peerState) of
              (status, authMechanism, publicKeyFound, peerPublicKey, issuerPublicKeys) \<Rightarrow>
                if ER_OK = status then
                  (if publicKeyFound then (True, Some peerPublicKey, issuerPublicKeys, True)
                   else if authMechanism = KeyExchangerECDHE_PSK_AuthName C
                           \<or> authMechanism = AuthMechSRP_AuthName C
                           \<or> authMechanism = AuthMechLogon_AuthName C then
                     (True, None, issuerPublicKeys, False)
                   else (False, None, issuerPublicKeys, False))
                else if ER_BUS_KEY_UNAVAILABLE = status then
                  (False, None, issuerPublicKeys, False)
                else (False, None, issuerPublicKeys, True)))
      else (False, None, [], True))"

definition IsAuthorized ::
  "Constants \<Rightarrow> wildcard \<Rightarrow> Request \<Rightarrow> PermissionPolicy option \<Rightarrow> PeerState
     \<Rightarrow> PermissionMgmtObj \<Rightarrow> bool \<Rightarrow> bool" where
  "IsAuthorized C wm request policy peerState permissionMgmtObj authenticated =
     (let right = GenRight C request \<lparr>authByPolicy = 0\<rparr>
      in if authByPolicy right \<noteq> 0 then
           (case policy of
              None \<Rightarrow> False
            | Some pol \<Rightarrow>
                (case ResolveTrust C permissionMgmtObj peerState authenticated of
                   (trustedPeer, trustedPeerPublicKey, issuerPublicKeys, enforceManifest) \<Rightarrow>
                     (case IsPeerAuthorized wm request pol peerState trustedPeer
                             trustedPeerPublicKey issuerPublicKeys (authByPolicy right) of
                        (authorized, denied) \<Rightarrow>
                          if denied \<or> \<not> authorized then False
                          else if authorized \<and> enforceManifest then
                            IsAuthorizedByPeerManifest wm request right peerState
                          else authorized)))
         else
           (let authorized = False; enforceManifest = True
            in if authorized \<and> enforceManifest then
                 IsAuthorizedByPeerManifest wm request right peerState
               else authorized))"

section \<open>The request classifier and the message entry point\<close>

definition IsStdInterface :: "Constants \<Rightarrow> string \<Rightarrow> bool" where
  "IsStdInterface C name =
     (if name = Bus_InterfaceName C then True
      else if name = Daemon_InterfaceName C then True
      else if name = Daemon_Debug_InterfaceName C then True
      else if name = Bus_Peer_Authentication_InterfaceName C then True
      else if name = Bus_Peer_Session_InterfaceName C then True
      else if name = allseen_Introspectable_InterfaceName C then True
      else if name = Bus_Peer_HeaderCompression_InterfaceName C then True
      else if name = DBus_InterfaceName C then True
      else if name = DBus_Peer_InterfaceName C then True
      else if name = DBus_Introspectable_InterfaceName C then True
      else False)"

definition IsPropertyInterface :: "Constants \<Rightarrow> string \<Rightarrow> bool" where
  "IsPropertyInterface C name = (if name = DBus_Properties_InterfaceName C then True else False)"

definition IsPermissionMgmtInterface :: "Constants \<Rightarrow> string \<Rightarrow> bool" where
  "IsPermissionMgmtInterface C name =
     (if name = Security_Application_InterfaceName C then True
      else if name = Security_ClaimableApplication_InterfaceName C then True
      else if name = Security_ManagedApplication_InterfaceName C then True
      else False)"

datatype AllJoynMessageType =
  MESSAGE_INVALID | MESSAGE_METHOD_CALL | MESSAGE_METHOD_RET | MESSAGE_ERROR | MESSAGE_SIGNAL

text \<open>
  What the code reads of a message. The type \<open>'arg\<close> stands for \<^verbatim>\<open>MsgArg\<close>;
  \<open>RefArgs\<close> is the array \<^verbatim>\<open>GetRefArgs\<close> hands out, \<open>Args\<close> the one of \<^verbatim>\<open>GetArgs\<close>.
\<close>

record 'arg Message =
  GetMessageType :: AllJoynMessageType
  GetObjectPath :: string
  GetInterface :: string
  GetMemberNameOf :: string
  RefArgs :: "'arg list"
  Args :: "'arg list"

text \<open>
  The functions of the collaborating classes, as parameters: \<^verbatim>\<open>WildcardMatch\<close>,
  \<^verbatim>\<open>MsgArg::Get("s", &str)\<close> on one argument and \<^verbatim>\<open>Message::GetArgs("s", &str)\<close> on
  the unmarshalled arguments of a message, each answering with a status and the string
  it extracted.
\<close>

record 'arg Externals =
  WildcardMatch :: wildcard
  MsgArg_Get_s :: "'arg \<Rightarrow> QStatus \<times> string"
  Message_GetArgs_s :: "'arg list \<Rightarrow> QStatus \<times> string"

text \<open>The first constructor of \<^verbatim>\<open>Request\<close>; the empty \<open>iName\<close> stands for its null pointer,
  which \<^verbatim>\<open>AuthorizeMessage\<close> overwrites before any read.\<close>

definition Request_of_msg :: "'arg Message \<Rightarrow> bool \<Rightarrow> Request" where
  "Request_of_msg msg out =
     \<lparr>outgoing = out, propertyRequest = False, isSetProperty = False,
      objPath = GetObjectPath msg, iName = [], mbrName = None,
      mbrType = (if GetMessageType msg = MESSAGE_METHOD_CALL then METHOD_CALL
                 else if GetMessageType msg = MESSAGE_SIGNAL then SIGNAL
                 else NOT_SPECIFIED)\<rparr>"

text \<open>
  \<^verbatim>\<open>ParsePropertiesMessage\<close> returns the status when it is not \<^verbatim>\<open>ER_OK\<close> (\<open>Inl\<close>),
  and otherwise the request as updated (\<open>Inr\<close>). \<^verbatim>\<open>strncmp(mbrName, "GetAll", 6) == 0\<close>
  holds when the first six characters of the member name are \<^verbatim>\<open>GetAll\<close>.
\<close>

definition ParsePropertiesMessage ::
  "'arg Externals \<Rightarrow> Request \<Rightarrow> 'arg Message \<Rightarrow> QStatus + Request" where
  "ParsePropertiesMessage E request msg =
     (let mbr = GetMemberNameOf msg
      in if take 6 mbr = ''GetAll'' then
           (if outgoing request \<and> length (RefArgs msg) < 1 then Inl ER_INVALID_DATA
            else
              (case (if outgoing request then MsgArg_Get_s E (RefArgs msg ! 0)
                     else Message_GetArgs_s E (Args msg)) of
                 (status, propIName) \<Rightarrow>
                   if status \<noteq> ER_OK then Inl status
                   else Inr (request\<lparr>propertyRequest := True, mbrType := PROPERTY,
                                      iName := propIName, mbrName := None\<rparr>)))
         else if take 3 mbr = ''Get'' \<or> take 3 mbr = ''Set'' then
           (let args = (if outgoing request then RefArgs msg else Args msg)
            in if length args < 2 then Inl ER_INVALID_DATA
               else
                 (case MsgArg_Get_s E (args ! 0) of
                    (status, propIName) \<Rightarrow>
                      if ER_OK \<noteq> status then Inl status
                      else
                        (case MsgArg_Get_s E (args ! 1) of
                           (status', propName) \<Rightarrow>
                             if status' \<noteq> ER_OK then Inl status'
                             else Inr (request\<lparr>propertyRequest := True, mbrType := PROPERTY,
                                                isSetProperty := (take 3 mbr = ''Set''),
                                                iName := propIName,
                                                mbrName := Some propName\<rparr>))))
         else if take 17 mbr = ''PropertiesChanged'' then
           (let args = (if outgoing request then RefArgs msg else Args msg)
            in if length args < 1 then Inl ER_INVALID_DATA
               else
                 (case MsgArg_Get_s E (args ! 0) of
                    (status, propIName) \<Rightarrow>
                      if status \<noteq> ER_OK then Inl status
                      else Inr (request\<lparr>propertyRequest := True, mbrType := SIGNAL,
                                         iName := propIName, mbrName := Some []\<rparr>)))
         else Inl ER_FAIL)"

text \<open>
  \<^verbatim>\<open>AuthorizePermissionMgmt\<close> returns whether it handled the request, and the reference
  parameter \<^verbatim>\<open>authorized\<close>.
\<close>

definition ClaimAuthorized :: "Constants \<Rightarrow> PermissionMgmtObj \<Rightarrow> PeerState \<Rightarrow> bool" where
  "ClaimAuthorized C permissionMgmtObj peerState =
     (let authorized = (\<not> HasTrustAnchors permissionMgmtObj)
      in if authorized \<and> \<not> IsLocalPeer peerState then
           (case GetClaimCapabilities permissionMgmtObj of
              (status, capabilities) \<Rightarrow>
                if ER_OK \<noteq> status then False
                else if GetAuthSuite peerState = AUTH_SUITE_ECDHE_NULL C then
                  (capabilities AND CAPABLE_ECDHE_NULL C = CAPABLE_ECDHE_NULL C)
                else if GetAuthSuite peerState = AUTH_SUITE_ECDHE_PSK C then
                  (capabilities AND CAPABLE_ECDHE_PSK C = CAPABLE_ECDHE_PSK C)
                else if GetAuthSuite peerState = AUTH_SUITE_ECDHE_SPEKE C then
                  (capabilities AND CAPABLE_ECDHE_SPEKE C = CAPABLE_ECDHE_SPEKE C)
                else if GetAuthSuite peerState = AUTH_SUITE_ECDHE_ECDSA C then
                  (capabilities AND CAPABLE_ECDHE_ECDSA C = CAPABLE_ECDHE_ECDSA C)
                else False)
         else authorized)"

definition AuthorizePermissionMgmt ::
  "Constants \<Rightarrow> PermissionMgmtObj \<Rightarrow> bool \<Rightarrow> string \<Rightarrow> string option \<Rightarrow> PeerState \<Rightarrow> bool \<times> bool" where
  "AuthorizePermissionMgmt C permissionMgmtObj out name member peerState =
     (if out then (True, True)
      else
        (case member of
           None \<Rightarrow> (False, False)
         | Some mbr \<Rightarrow>
             if name = Security_ClaimableApplication_InterfaceName C then
               (if take 7 mbr = ''Version'' then (True, True)
                else if take 5 mbr = ''Claim'' then
                  (True, ClaimAuthorized C permissionMgmtObj peerState)
                else (False, False))
             else if name = Security_ManagedApplication_InterfaceName C then
               (if \<not> HasTrustAnchors permissionMgmtObj then (True, False)
                else if take 7 mbr = ''Version'' then (True, True)
                else (False, False))
             else if name = Security_Application_InterfaceName C then
               (if take 7 mbr = ''Version'' \<or> take 16 mbr = ''ApplicationState'' then (True, True)
                else if \<not> HasTrustAnchors permissionMgmtObj then
                  (if take 22 mbr = ''ManifestTemplateDigest''
                      \<or> take 12 mbr = ''EccPublicKey''
                      \<or> take 23 mbr = ''ManufacturerCertificate''
                      \<or> take 16 mbr = ''ManifestTemplate''
                      \<or> take 17 mbr = ''ClaimCapabilities''
                      \<or> take 29 mbr = ''ClaimCapabilityAdditionalInfo'' then (True, True)
                   else (False, False))
                else (False, False))
             else (False, False)))"

text \<open>
  The classification step of \<^verbatim>\<open>AuthorizeMessage\<close>: the construction of the request and
  the statement that fills in its interface and member names.
\<close>

definition ClassifyMessage ::
  "Constants \<Rightarrow> 'arg Externals \<Rightarrow> bool \<Rightarrow> 'arg Message \<Rightarrow> QStatus + Request" where
  "ClassifyMessage C E out msg =
     (let request = Request_of_msg msg out
      in if IsPropertyInterface C (GetInterface msg) then ParsePropertiesMessage E request msg
         else Inr (request\<lparr>iName := GetInterface msg, mbrName := Some (GetMemberNameOf msg)\<rparr>))"

text \<open>
  \<^verbatim>\<open>PermissionManager::AuthorizeMessage\<close>. The members \<^verbatim>\<open>permissionMgmtObj\<close> and the
  policy behind \<^verbatim>\<open>GetPolicy()\<close> are pointers that may be null.
\<close>

definition AuthorizeMessage ::
  "Constants \<Rightarrow> 'arg Externals \<Rightarrow> PermissionMgmtObj option \<Rightarrow> PermissionPolicy option \<Rightarrow> bool
     \<Rightarrow> 'arg Message \<Rightarrow> PeerState \<Rightarrow> bool \<Rightarrow> QStatus" where
  "AuthorizeMessage C E permissionMgmtObj policy out msg peerState authenticated =
     (if GetMessageType msg \<noteq> MESSAGE_METHOD_CALL \<and> GetMessageType msg \<noteq> MESSAGE_SIGNAL then ER_OK
      else if IsStdInterface C (GetInterface msg) then ER_OK
      else
        (case ClassifyMessage C E out msg of
           Inl status \<Rightarrow> status
         | Inr request \<Rightarrow>
             (case permissionMgmtObj of
                None \<Rightarrow> ER_PERMISSION_DENIED
              | Some pmo \<Rightarrow>
                  (let isPermissionMgmt = IsPermissionMgmtInterface C (iName request);
                       mgmt = (if isPermissionMgmt then
                                 AuthorizePermissionMgmt C pmo out (iName request)
                                   (mbrName request) peerState
                               else (False, False))
                   in if fst mgmt then (if snd mgmt then ER_OK else ER_PERMISSION_DENIED)
                      else if \<not> HasTrustAnchors pmo then
                        (if isPermissionMgmt \<and> mbrType request = METHOD_CALL then
                           ER_PERMISSION_DENIED
                         else ER_OK)
                      else if \<not> IsAuthorized C (WildcardMatch E) request policy peerState pmo
                                   authenticated then ER_PERMISSION_DENIED
                      else ER_OK))))"

section \<open>Example inputs\<close>

text \<open>
  An assignment of the constants with the customary AllJoyn values, a wildcard matcher
  and string arguments; the examples below are run with them. The matcher accepts equal
  strings and a pattern that ends in a star after a prefix of the string.
\<close>

definition AllJoynConstants :: Constants where
  "AllJoynConstants =
     \<lparr>ACTION_PROVIDE = 1, ACTION_OBSERVE = 2, ACTION_MODIFY = 4,
      Bus_InterfaceName = ''org.alljoyn.Bus'',
      Daemon_InterfaceName = ''org.alljoyn.Daemon'',
      Daemon_Debug_InterfaceName = ''org.alljoyn.Daemon.Debug'',
      Bus_Peer_Authentication_InterfaceName = ''org.alljoyn.Bus.Peer.Authentication'',
      Bus_Peer_Session_InterfaceName = ''org.alljoyn.Bus.Peer.Session'',
      allseen_Introspectable_InterfaceName = ''org.allseen.Introspectable'',
      Bus_Peer_HeaderCompression_InterfaceName = ''org.alljoyn.Bus.Peer.HeaderCompression'',
      DBus_InterfaceName = ''org.freedesktop.DBus'',
      DBus_Peer_InterfaceName = ''org.freedesktop.DBus.Peer'',
      DBus_Introspectable_InterfaceName = ''org.freedesktop.DBus.Introspectable'',
      DBus_Properties_InterfaceName = ''org.freedesktop.DBus.Properties'',
      Security_Application_InterfaceName = ''org.alljoyn.Bus.Security.Application'',
      Security_ClaimableApplication_InterfaceName =
        ''org.alljoyn.Bus.Security.ClaimableApplication'',
      Security_ManagedApplication_InterfaceName =
        ''org.alljoyn.Bus.Security.ManagedApplication'',
      KeyExchangerECDHE_PSK_AuthName = ''ALLJOYN_ECDHE_PSK'',
      AuthMechSRP_AuthName = ''ALLJOYN_SRP_KEYX'',
      AuthMechLogon_AuthName = ''ALLJOYN_SRP_LOGON'',
      AUTH_SUITE_ECDHE_NULL = 0x00400001, AUTH_SUITE_ECDHE_PSK = 0x00400002,
      AUTH_SUITE_ECDHE_SPEKE = 0x00400003, AUTH_SUITE_ECDHE_ECDSA = 0x00400004,
      CAPABLE_ECDHE_NULL = 1, CAPABLE_ECDHE_PSK = 2, CAPABLE_ECDHE_SPEKE = 8,
      CAPABLE_ECDHE_ECDSA = 4\<rparr>"

definition StarMatch :: wildcard where
  "StarMatch str pat =
     (if pat = [] \<or> str = [] then True
      else if last pat = CHR ''*'' then take (length pat - 1) str \<noteq> butlast pat
      else str \<noteq> pat)"

fun StringArg_Get_s :: "string option \<Rightarrow> QStatus \<times> string" where
  "StringArg_Get_s (Some s) = (ER_OK, s)"
| "StringArg_Get_s None = (ER_OTHER 0, [])"

fun StringArgs_GetArgs_s :: "string option list \<Rightarrow> QStatus \<times> string" where
  "StringArgs_GetArgs_s [a] = StringArg_Get_s a"
| "StringArgs_GetArgs_s _ = (ER_OTHER 1, [])"

definition ExampleExternals :: "string option Externals" where
  "ExampleExternals =
     \<lparr>WildcardMatch = StarMatch, MsgArg_Get_s = StringArg_Get_s,
      Message_GetArgs_s = StringArgs_GetArgs_s\<rparr>"

section \<open>Vocabulary of the statements\<close>

text \<open>
  Three predicates used to state the results. An ACL denies when the peer qualifies for
  it and one of its rules, scanned with the flag the qualifier produced, reports denied;
  it allows when the peer qualifies and one of its rules matches. A request has no
  member name when \<^verbatim>\<open>mbrName\<close> is null or empty.
\<close>

definition AclDenies ::
  "wildcard \<Rightarrow> Request \<Rightarrow> PeerState \<Rightarrow> bool \<Rightarrow> ECCPublicKey option \<Rightarrow> ECCPublicKey list
     \<Rightarrow> 8 word \<Rightarrow> Acl \<Rightarrow> bool" where
  "AclDenies wm request peerState trustedPeer key chain ra acl =
     (case IsPeerQualifiedForAcl acl peerState trustedPeer key chain of
        (qualified, exactKey) \<Rightarrow>
          qualified \<and> list_ex (\<lambda>r. snd (IsRuleMatched wm r request ra exactKey False (outgoing request)))
                        (GetRules acl))"

definition AclAllows ::
  "wildcard \<Rightarrow> Request \<Rightarrow> PeerState \<Rightarrow> bool \<Rightarrow> ECCPublicKey option \<Rightarrow> ECCPublicKey list
     \<Rightarrow> 8 word \<Rightarrow> Acl \<Rightarrow> bool" where
  "AclAllows wm request peerState trustedPeer key chain ra acl =
     (case IsPeerQualifiedForAcl acl peerState trustedPeer key chain of
        (qualified, exactKey) \<Rightarrow>
          qualified \<and> list_ex (\<lambda>r. fst (IsRuleMatched wm r request ra exactKey False (outgoing request)))
                        (GetRules acl))"


section \<open>Example policies, peers and messages\<close>

definition ExAllowAllRule :: Rule where
  "ExAllowAllRule =
     \<lparr>GetObjPath = ''*'', GetInterfaceName = ''*'',
      GetMembers = [\<lparr>GetMemberName = ''*'', GetMemberType = NOT_SPECIFIED, GetActionMask = 7\<rparr>]\<rparr>"

definition ExDenyAllRule :: Rule where
  "ExDenyAllRule =
     \<lparr>GetObjPath = ''*'', GetInterfaceName = ''*'',
      GetMembers = [\<lparr>GetMemberName = ''*'', GetMemberType = NOT_SPECIFIED, GetActionMask = 0\<rparr>]\<rparr>"

definition ExNoMembersRule :: Rule where
  "ExNoMembersRule = \<lparr>GetObjPath = ''*'', GetInterfaceName = ''*'', GetMembers = []\<rparr>"

definition ExEmptyPathRule :: Rule where
  "ExEmptyPathRule = ExAllowAllRule\<lparr>GetObjPath := []\<rparr>"

definition ExEmptyInterfaceRule :: Rule where
  "ExEmptyInterfaceRule = ExDenyAllRule\<lparr>GetInterfaceName := []\<rparr>"

definition ExNarrowDenyRule :: Rule where
  "ExNarrowDenyRule = ExDenyAllRule\<lparr>GetObjPath := ''/a''\<rparr>"

definition ExFooGrantRule :: Rule where
  "ExFooGrantRule =
     \<lparr>GetObjPath = ''/a'', GetInterfaceName = ''org.x'',
      GetMembers = [\<lparr>GetMemberName = ''Foo'', GetMemberType = METHOD_CALL, GetActionMask = 4\<rparr>]\<rparr>"


definition ExOpenPolicy :: PermissionPolicy where
  "ExOpenPolicy =
     \<lparr>GetAcls = [\<lparr>GetPeers = [\<lparr>GetType = PEER_ALL, GetKeyInfo = None, GetSecurityGroupId = 0\<rparr>],
                  GetRules = [ExAllowAllRule]\<rparr>]\<rparr>"


definition ExAnyTrustedAcl :: Acl where
  "ExAnyTrustedAcl =
     \<lparr>GetPeers = [\<lparr>GetType = PEER_ANY_TRUSTED, GetKeyInfo = None, GetSecurityGroupId = 0\<rparr>],
      GetRules = [ExDenyAllRule, ExFooGrantRule]\<rparr>"

definition ExExactKeyAcl :: Acl where
  "ExExactKeyAcl =
     \<lparr>GetPeers = [\<lparr>GetType = PEER_WITH_PUBLIC_KEY, GetKeyInfo = Some (1, 2),
                   GetSecurityGroupId = 0\<rparr>],
      GetRules = [ExFooGrantRule, ExDenyAllRule, ExAllowAllRule]\<rparr>"

definition ExIdentifiedAcl :: Acl where
  "ExIdentifiedAcl =
     \<lparr>GetPeers = [\<lparr>GetType = PEER_WITH_PUBLIC_KEY, GetKeyInfo = Some (1, 2),
                   GetSecurityGroupId = 0\<rparr>,
                  \<lparr>GetType = PEER_FROM_CERTIFICATE_AUTHORITY, GetKeyInfo = Some (3, 4),
                   GetSecurityGroupId = 0\<rparr>,
                  \<lparr>GetType = PEER_WITH_MEMBERSHIP, GetKeyInfo = None, GetSecurityGroupId = 7\<rparr>],
      GetRules = [ExAllowAllRule]\<rparr>"

definition ExNoMatchAcl :: Acl where
  "ExNoMatchAcl =
     \<lparr>GetPeers = [\<lparr>GetType = PEER_ALL, GetKeyInfo = None, GetSecurityGroupId = 0\<rparr>],
      GetRules = [\<lparr>GetObjPath = ''/other'', GetInterfaceName = ''org.y'',
                   GetMembers = [\<lparr>GetMemberName = ''Bar'', GetMemberType = METHOD_CALL,
                                  GetActionMask = 4\<rparr>]\<rparr>]\<rparr>"

definition ExGrantAfterNoMatchPolicy :: PermissionPolicy where
  "ExGrantAfterNoMatchPolicy = \<lparr>GetAcls = [ExNoMatchAcl, ExAnyTrustedAcl]\<rparr>"

definition ExGrantBeforeNoMatchPolicy :: PermissionPolicy where
  "ExGrantBeforeNoMatchPolicy = \<lparr>GetAcls = [ExAnyTrustedAcl, ExNoMatchAcl]\<rparr>"

definition ExDenyAfterGrantPolicy :: PermissionPolicy where
  "ExDenyAfterGrantPolicy = \<lparr>GetAcls = [ExNoMatchAcl, ExAnyTrustedAcl, ExExactKeyAcl]\<rparr>"

definition ExClaimedPmo :: PermissionMgmtObj where
  "ExClaimedPmo =
     \<lparr>HasTrustAnchors = True, GetPublicKey = (ER_OK, (10, 11)),
      GetConnectedPeerAuthMetadata = (\<lambda>guid. (ER_OK, ''ALLJOYN_ECDHE_ECDSA'', True, (1, 2), [])),
      GetClaimCapabilities = (ER_OK, 5)\<rparr>"

definition ExUnclaimedPmo :: PermissionMgmtObj where
  "ExUnclaimedPmo =
     \<lparr>HasTrustAnchors = False, GetPublicKey = (ER_OK, (10, 11)),
      GetConnectedPeerAuthMetadata = (\<lambda>guid. (ER_OK, ''ALLJOYN_ECDHE_NULL'', False, (0, 0), [])),
      GetClaimCapabilities = (ER_OK, 5)\<rparr>"

definition ExNoManifestPeer :: PeerState where
  "ExNoManifestPeer =
     \<lparr>IsLocalPeer = False, GetGuid = 1, GetAuthSuite = 0x00400004, guildMap = [],
      GetManifests = []\<rparr>"

definition ExGrantingManifestPeer :: PeerState where
  "ExGrantingManifestPeer =
     \<lparr>IsLocalPeer = False, GetGuid = 1, GetAuthSuite = 0x00400004, guildMap = [],
      GetManifests = [[ExAllowAllRule]]\<rparr>"

definition ExDenyingManifestPeer :: PeerState where
  "ExDenyingManifestPeer =
     \<lparr>IsLocalPeer = False, GetGuid = 1, GetAuthSuite = 0x00400004, guildMap = [],
      GetManifests = [[ExDenyAllRule], [ExAllowAllRule]]\<rparr>"


definition ExMemberPeer :: PeerState where
  "ExMemberPeer =
     \<lparr>IsLocalPeer = False, GetGuid = 1, GetAuthSuite = 0x00400004,
      guildMap = [\<lparr>certChain = [\<lparr>GetCertType = MEMBERSHIP_CERTIFICATE, GetGuild = 7\<rparr>]\<rparr>],
      GetManifests = [[ExAllowAllRule]]\<rparr>"

definition ExMethodCall :: Request where
  "ExMethodCall =
     \<lparr>outgoing = False, propertyRequest = False, isSetProperty = False, objPath = ''/a'',
      iName = ''org.x'', mbrName = Some ''Foo'', mbrType = METHOD_CALL\<rparr>"

definition ExUnspecifiedRequest :: Request where
  "ExUnspecifiedRequest =
     \<lparr>outgoing = False, propertyRequest = False, isSetProperty = False, objPath = ''/a'',
      iName = ''org.x'', mbrName = Some ''Foo'', mbrType = NOT_SPECIFIED\<rparr>"


definition ExMessage ::
  "AllJoynMessageType \<Rightarrow> string \<Rightarrow> string \<Rightarrow> string option list \<Rightarrow> string option Message" where
  "ExMessage ty interface member arguments =
     \<lparr>GetMessageType = ty, GetObjectPath = ''/a'', GetInterface = interface,
      GetMemberNameOf = member, RefArgs = arguments, Args = arguments\<rparr>"

definition ExClaimableFooCall :: "string option Message" where
  "ExClaimableFooCall =
     ExMessage MESSAGE_METHOD_CALL ''org.alljoyn.Bus.Security.ClaimableApplication'' ''Foo'' []"

definition ExPlainSignal :: "string option Message" where
  "ExPlainSignal = ExMessage MESSAGE_SIGNAL ''org.x'' ''Changed'' []"

definition ExShortGetCall :: "string option Message" where
  "ExShortGetCall =
     ExMessage MESSAGE_METHOD_CALL ''org.freedesktop.DBus.Properties'' ''Get'' [Some ''org.x'']"

definition ExUnknownMemberCall :: "string option Message" where
  "ExUnknownMemberCall =
     ExMessage MESSAGE_METHOD_CALL ''org.freedesktop.DBus.Properties'' ''Describe''
       [Some ''org.x'']"

definition ExEmptyChangedSignal :: "string option Message" where
  "ExEmptyChangedSignal =
     ExMessage MESSAGE_SIGNAL ''org.freedesktop.DBus.Properties'' ''PropertiesChanged'' []"

definition ExEmptyGetAllCall :: "string option Message" where
  "ExEmptyGetAllCall =
     ExMessage MESSAGE_METHOD_CALL ''org.freedesktop.DBus.Properties'' ''GetAll'' []"

section \<open>Properties of the rule matcher\<close>

lemma ScanMembersGetAll_denied:
  "ScanMembersGetAll ra scan strict ms a d = (r, d') \<Longrightarrow> d' \<noteq> d \<Longrightarrow>
     scan \<and> \<not> r \<and> d' \<and> (\<exists>m \<in> set ms. GetMemberName m = ''*'' \<and> GetActionMask m = 0)"
  by (induction ms arbitrary: a)
     (auto simp: Let_def IsActionDenied_def split: if_splits)

lemma ScanMembersNamed_denied:
  "ScanMembersNamed wm name ty ra scan ms a d = (r, d') \<Longrightarrow> d' \<noteq> d \<Longrightarrow>
     scan \<and> \<not> r \<and> d' \<and> (\<exists>m \<in> set ms. GetMemberName m = ''*'' \<and> GetActionMask m = 0)"
  by (induction ms arbitrary: a)
     (auto simp: Let_def IsActionDenied_def split: if_splits)

lemma QualifiedForDenied_iff:
  "QualifiedForDenied rule scan \<longleftrightarrow>
     scan \<and> GetObjPath rule = ''*'' \<and> GetInterfaceName rule = ''*''"
  by (simp add: QualifiedForDenied_def)

lemma IsRuleMatched_denied:
  assumes "IsRuleMatched wm rule request ra scan d strict = (r, d')" and "d' \<noteq> d"
  shows "scan \<and> GetObjPath rule = ''*'' \<and> GetInterfaceName rule = ''*'' \<and> \<not> r \<and> d'
         \<and> (\<exists>m \<in> set (GetMembers rule). GetMemberName m = ''*'' \<and> GetActionMask m = 0)"
proof -
  let ?q = "QualifiedForDenied rule scan"
  from assms have
    "ScanMembersGetAll ra ?q strict (GetMembers rule) False d = (r, d')
     \<or> (\<exists>name. ScanMembersNamed wm name (mbrType request) ra ?q (GetMembers rule) False d
                 = (r, d'))"
    by (auto simp: IsRuleMatched_def Let_def split: if_splits option.splits)
  then have "?q \<and> \<not> r \<and> d'
      \<and> (\<exists>m \<in> set (GetMembers rule). GetMemberName m = ''*'' \<and> GetActionMask m = 0)"
    using assms(2) ScanMembersGetAll_denied ScanMembersNamed_denied by blast
  then show ?thesis
    by (simp add: QualifiedForDenied_iff)
qed

lemma IsRuleMatched_not_both:
  "IsRuleMatched wm rule request ra scan False strict = (r, d') \<Longrightarrow> \<not> (r \<and> d')"
  using IsRuleMatched_denied by blast

lemma IsRuleMatched_no_scan:
  "snd (IsRuleMatched wm rule request ra False d strict) = d"
  using IsRuleMatched_denied [of wm rule request ra False d strict] 
  by (cases "IsRuleMatched wm rule request ra False d strict") auto




section \<open>Properties of the ACL and policy evaluators\<close>

lemma ScanRules_denied:
  "snd (ScanRules wm request ra scan strict rules a False) =
     (\<exists>r \<in> set rules. snd (IsRuleMatched wm r request ra scan False strict))"
proof (induction rules arbitrary: a)
  case Nil
  then show ?case by simp
next
  case (Cons rule rules)
  obtain m d' where md: "IsRuleMatched wm rule request ra scan False strict = (m, d')"
    by (cases "IsRuleMatched wm rule request ra scan False strict")
  with IsRuleMatched_not_both have nb: "\<not> (m \<and> d')" by blast
  show ?case using md nb Cons.IH by (cases m; cases d') auto
qed

lemma ScanRules_allowed:
  "\<not> (\<exists>r \<in> set rules. snd (IsRuleMatched wm r request ra scan False strict)) \<Longrightarrow>
   fst (ScanRules wm request ra scan strict rules a False) =
     (a \<or> (\<exists>r \<in> set rules. fst (IsRuleMatched wm r request ra scan False strict)))"
proof (induction rules arbitrary: a)
  case Nil
  then show ?case by simp
next
  case (Cons rule rules)
  obtain m d' where md: "IsRuleMatched wm rule request ra scan False strict = (m, d')"
    by (cases "IsRuleMatched wm rule request ra scan False strict")
  from Cons.prems md have d': "\<not> d'" by auto
  from Cons.prems have rest: "\<not> (\<exists>r \<in> set rules. snd (IsRuleMatched wm r request ra scan False strict))"
    by auto
  show ?case using md d' Cons.IH [OF rest] by (cases m) auto
qed

lemma ScanRules_first_denial:
  "ScanRules wm request ra scan strict rules a False = (r, True) \<Longrightarrow>
   \<exists>pre rule post. rules = pre @ rule # post
      \<and> IsRuleMatched wm rule request ra scan False strict = (False, True)
      \<and> (\<forall>x \<in> set pre. \<not> snd (IsRuleMatched wm x request ra scan False strict))
      \<and> r = (a \<or> (\<exists>x \<in> set pre. fst (IsRuleMatched wm x request ra scan False strict)))"
proof (induction rules arbitrary: a)
  case Nil
  then show ?case by simp
next
  case (Cons rule rules)
  obtain m d' where md: "IsRuleMatched wm rule request ra scan False strict = (m, d')"
    by (cases "IsRuleMatched wm rule request ra scan False strict")
  with IsRuleMatched_not_both have nb: "\<not> (m \<and> d')" by blast
  show ?case
  proof (cases d')
    case True
    with nb have "\<not> m" by simp
    with True md Cons.prems have "r = a" by simp
    with True \<open>\<not> m\<close> md show ?thesis
      by (intro exI [of _ "[]"] exI [of _ rule] exI [of _ rules]) simp
  next
    case False
    with md Cons.prems have "ScanRules wm request ra scan strict rules (a \<or> m) False = (r, True)"
      by (cases m) auto
    from Cons.IH [OF this] obtain pre x post where
      p: "rules = pre @ x # post"
         "IsRuleMatched wm x request ra scan False strict = (False, True)"
         "\<forall>y \<in> set pre. \<not> snd (IsRuleMatched wm y request ra scan False strict)"
         "r = ((a \<or> m) \<or> (\<exists>y \<in> set pre. fst (IsRuleMatched wm y request ra scan False strict)))"
      by blast
    with md False show ?thesis
      by (intro exI [of _ "rule # pre"] exI [of _ x] exI [of _ post]) auto
  qed
qed

lemma IsPolicyAclMatched_denied:
  "snd (IsPolicyAclMatched wm acl request ra scan False) =
     (\<exists>r \<in> set (GetRules acl). snd (IsRuleMatched wm r request ra scan False (outgoing request)))"
  by (simp add: IsPolicyAclMatched_def ScanRules_denied)

lemma IsPolicyAclMatched_allowed:
  "\<not> snd (IsPolicyAclMatched wm acl request ra scan False) \<Longrightarrow>
   fst (IsPolicyAclMatched wm acl request ra scan False) =
     (\<exists>r \<in> set (GetRules acl). fst (IsRuleMatched wm r request ra scan False (outgoing request)))"
  using ScanRules_allowed [of "GetRules acl" wm request ra scan "outgoing request" False]
  by (simp add: IsPolicyAclMatched_def ScanRules_denied)

lemma ScanPeers_no_key:
  "ScanPeers ps trusted None chain peers =
     (\<exists>p \<in> set peers. GetType p = PEER_ALL \<or> (trusted \<and> GetType p = PEER_ANY_TRUSTED), False)"
  by (induction peers) auto

lemma ScanPeers_exact_key:
  "snd (ScanPeers ps trusted key chain peers) \<Longrightarrow>
     fst (ScanPeers ps trusted key chain peers) \<and> trusted \<and> key \<noteq> None
     \<and> (\<exists>p \<in> set peers. GetType p = PEER_WITH_PUBLIC_KEY \<and> GetKeyInfo p = key)"
  by (induction peers) (auto split: if_splits option.splits)

lemma ScanAcls_denied:
  "snd (ScanAcls wm request ps trusted key chain ra acls a False) =
     (\<exists>acl \<in> set acls. AclDenies wm request ps trusted key chain ra acl)"
proof (induction acls arbitrary: a)
  case Nil
  then show ?case by simp
next
  case (Cons acl acls)
  obtain q f where qf: "IsPeerQualifiedForAcl acl ps trusted key chain = (q, f)"
    by (cases "IsPeerQualifiedForAcl acl ps trusted key chain")
  obtain m d' where md: "IsPolicyAclMatched wm acl request ra f False = (m, d')"
    by (cases "IsPolicyAclMatched wm acl request ra f False")
  have d': "d' = (\<exists>r \<in> set (GetRules acl). snd (IsRuleMatched wm r request ra f False (outgoing request)))"
    using IsPolicyAclMatched_denied [of wm acl request ra f] md by simp
  show ?case
    using qf md d' Cons.IH
    by (cases q; cases d') (auto simp: AclDenies_def list_ex_iff Let_def)
qed

lemma ScanAcls_allowed:
  "\<not> (\<exists>acl \<in> set acls. AclDenies wm request ps trusted key chain ra acl) \<Longrightarrow>
   fst (ScanAcls wm request ps trusted key chain ra acls a False) =
     (a \<or> (\<exists>acl \<in> set acls. AclAllows wm request ps trusted key chain ra acl))"
proof (induction acls arbitrary: a)
  case Nil
  then show ?case by simp
next
  case (Cons acl acls)
  obtain q f where qf: "IsPeerQualifiedForAcl acl ps trusted key chain = (q, f)"
    by (cases "IsPeerQualifiedForAcl acl ps trusted key chain")
  obtain m d' where md: "IsPolicyAclMatched wm acl request ra f False = (m, d')"
    by (cases "IsPolicyAclMatched wm acl request ra f False")
  have d': "d' = (\<exists>r \<in> set (GetRules acl). snd (IsRuleMatched wm r request ra f False (outgoing request)))"
    using IsPolicyAclMatched_denied [of wm acl request ra f] md by simp
  from Cons.prems have rest: "\<not> (\<exists>acl \<in> set acls. AclDenies wm request ps trusted key chain ra acl)"
    and this_acl: "\<not> AclDenies wm request ps trusted key chain ra acl"
    by auto
  show ?case
  proof (cases q)
    case False
    with qf Cons.IH [OF rest] show ?thesis
      by (simp add: AclAllows_def)
  next
    case True
    with this_acl qf d' have nd: "\<not> d'"
      by (simp add: AclDenies_def list_ex_iff)
    then have m: "m = (\<exists>r \<in> set (GetRules acl). fst (IsRuleMatched wm r request ra f False (outgoing request)))"
      using IsPolicyAclMatched_allowed [of wm acl request ra f] md by simp
    show ?thesis
      using True qf md nd m Cons.IH [OF rest, of "if m then True else a"]
      by (auto simp: AclAllows_def list_ex_iff Let_def)
  qed
qed

lemma AclDenies_exact_key:
  "AclDenies wm request ps t k ch ra acl \<longleftrightarrow>
     IsPeerQualifiedForAcl acl ps t k ch = (True, True)
     \<and> (\<exists>r \<in> set (GetRules acl). snd (IsRuleMatched wm r request ra True False (outgoing request)))"
proof -
  obtain q f where qf: "IsPeerQualifiedForAcl acl ps t k ch = (q, f)"
    by (cases "IsPeerQualifiedForAcl acl ps t k ch")
  show ?thesis
    using qf IsRuleMatched_no_scan [of wm _ request ra False "outgoing request"]
    by (cases f) (auto simp: AclDenies_def list_ex_iff)
qed

lemma IsPeerAuthorized_eq:
  "IsPeerAuthorized wm request pol ps t k ch ra = (a, d) \<Longrightarrow>
     d = (\<exists>acl \<in> set (GetAcls pol). AclDenies wm request ps t k ch ra acl)
     \<and> (\<not> d \<longrightarrow> a = (\<exists>acl \<in> set (GetAcls pol). AclAllows wm request ps t k ch ra acl))"
  using ScanAcls_denied [of wm request ps t k ch ra "GetAcls pol" False]
        ScanAcls_allowed [of "GetAcls pol" wm request ps t k ch ra False]
  by (auto simp: IsPeerAuthorized_def)

lemma AclAllows_iff:
  "AclAllows wm request ps t k ch ra acl \<longleftrightarrow>
     fst (IsPeerQualifiedForAcl acl ps t k ch)
     \<and> (\<exists>r \<in> set (GetRules acl).
           fst (IsRuleMatched wm r request ra (snd (IsPeerQualifiedForAcl acl ps t k ch)) False
                  (outgoing request)))"
  by (cases "IsPeerQualifiedForAcl acl ps t k ch") (simp add: AclAllows_def list_ex_iff)

lemma ScanAcls_first_denial:
  "ScanAcls wm request ps t k ch ra acls a False = (r, True) \<Longrightarrow>
   \<exists>pre acl post. acls = pre @ acl # post
      \<and> (\<forall>x \<in> set pre. \<not> AclDenies wm request ps t k ch ra x)
      \<and> AclDenies wm request ps t k ch ra acl
      \<and> r = (a \<or> (\<exists>x \<in> set pre. AclAllows wm request ps t k ch ra x)
              \<or> fst (IsPolicyAclMatched wm acl request ra
                        (snd (IsPeerQualifiedForAcl acl ps t k ch)) False))"
proof (induction acls arbitrary: a)
  case Nil
  then show ?case by simp
next
  case (Cons acl acls)
  obtain q f where qf: "IsPeerQualifiedForAcl acl ps t k ch = (q, f)"
    by (cases "IsPeerQualifiedForAcl acl ps t k ch")
  obtain m d' where md: "IsPolicyAclMatched wm acl request ra f False = (m, d')"
    by (cases "IsPolicyAclMatched wm acl request ra f False")
  have d': "d' = (\<exists>r \<in> set (GetRules acl).
                    snd (IsRuleMatched wm r request ra f False (outgoing request)))"
    using IsPolicyAclMatched_denied [of wm acl request ra f] md by simp
  show ?case
  proof (cases "q \<and> d'")
    case True
    with qf md Cons.prems have r: "r = (a \<or> m)"
      by (cases m) (auto simp: Let_def)
    from True qf d' have den: "AclDenies wm request ps t k ch ra acl"
      by (simp add: AclDenies_def list_ex_iff)
    from r den qf md show ?thesis
      by (intro exI [of _ "[]"] exI [of _ acl] exI [of _ acls]) simp
  next
    case False
    with qf d' have nden: "\<not> AclDenies wm request ps t k ch ra acl"
      by (auto simp: AclDenies_def list_ex_iff)
    have al: "AclAllows wm request ps t k ch ra acl = (q \<and> m)"
    proof (cases q)
      case True
      with False have "\<not> d'" by simp
      with md have "\<not> snd (IsPolicyAclMatched wm acl request ra f False)" by simp
      from IsPolicyAclMatched_allowed [OF this] md True qf show ?thesis
        by (simp add: AclAllows_iff)
    next
      case False
      with qf show ?thesis by (simp add: AclAllows_iff)
    qed
    from False qf md Cons.prems
    have "ScanAcls wm request ps t k ch ra acls (a \<or> (q \<and> m)) False = (r, True)"
      by (cases q; cases m) (auto simp: Let_def)
    from Cons.IH [OF this] obtain pre x post where
      p: "acls = pre @ x # post"
         "\<forall>y \<in> set pre. \<not> AclDenies wm request ps t k ch ra y"
         "AclDenies wm request ps t k ch ra x"
         "r = ((a \<or> (q \<and> m)) \<or> (\<exists>y \<in> set pre. AclAllows wm request ps t k ch ra y)
              \<or> fst (IsPolicyAclMatched wm x request ra
                        (snd (IsPeerQualifiedForAcl x ps t k ch)) False))"
      by blast
    with nden al show ?thesis
      by (intro exI [of _ "acl # pre"] exI [of _ x] exI [of _ post]) auto
  qed
qed

section \<open>Properties of the manifest evaluator and the orchestrator\<close>

text \<open>
  No manifest rule is scanned for a denial, so the manifest check is the disjunction of
  the rule matches.
\<close>

lemma ScanManifestRules_eq:
  "ScanManifestRules wm request right strict rules a =
     Some (a \<or> (\<exists>r \<in> set rules. fst (IsRuleMatched wm r request (authByPolicy right) False False strict)))"
proof (induction rules arbitrary: a)
  case Nil
  then show ?case by simp
next
  case (Cons rule rules)
  obtain m d' where md: "IsRuleMatched wm rule request (authByPolicy right) False False strict = (m, d')"
    by (cases "IsRuleMatched wm rule request (authByPolicy right) False False strict")
  then have "\<not> d'"
    using IsRuleMatched_no_scan [of wm rule request "authByPolicy right" False strict] by simp
  with md Cons.IH show ?case by (cases m) auto
qed

lemma ScanManifests_eq:
  "ScanManifests wm request right manifests a =
     Some (a \<or> (\<exists>mf \<in> set manifests. \<exists>r \<in> set mf.
                   fst (IsRuleMatched wm r request (authByPolicy right) False False (outgoing request))))"
  by (induction manifests arbitrary: a) (auto simp: ScanManifestRules_eq)

lemma IsAuthorizedByPeerManifest_iff:
  "IsAuthorizedByPeerManifest wm request right peerState \<longleftrightarrow>
     (\<exists>mf \<in> set (GetManifests peerState). \<exists>r \<in> set mf.
        fst (IsRuleMatched wm r request (authByPolicy right) False False (outgoing request)))"
  by (simp add: IsAuthorizedByPeerManifest_def ScanManifests_eq)

text \<open>The decision of \<^verbatim>\<open>IsAuthorized\<close> in closed form.\<close>

lemma IsAuthorized_eq:
  "IsAuthorized C wm request policy ps pmo auth =
     (let ra = authByPolicy (GenRight C request \<lparr>authByPolicy = 0\<rparr>)
      in ra \<noteq> 0 \<and>
         (case policy of
            None \<Rightarrow> False
          | Some pol \<Rightarrow>
              (case ResolveTrust C pmo ps auth of
                 (t, k, ch, enforce) \<Rightarrow>
                   \<not> (\<exists>acl \<in> set (GetAcls pol). AclDenies wm request ps t k ch ra acl)
                   \<and> (\<exists>acl \<in> set (GetAcls pol). AclAllows wm request ps t k ch ra acl)
                   \<and> (enforce \<longrightarrow>
                        (\<exists>mf \<in> set (GetManifests ps). \<exists>r \<in> set mf.
                           fst (IsRuleMatched wm r request ra False False (outgoing request)))))))"
proof (cases policy)
  case None
  then show ?thesis by (simp add: IsAuthorized_def Let_def)
next
  case (Some pol)
  let ?right = "GenRight C request \<lparr>authByPolicy = 0\<rparr>"
  let ?ra = "authByPolicy ?right"
  obtain t k ch enforce where rt: "ResolveTrust C pmo ps auth = (t, k, ch, enforce)"
    by (cases "ResolveTrust C pmo ps auth") auto
  obtain a d where ad: "IsPeerAuthorized wm request pol ps t k ch ?ra = (a, d)"
    by (cases "IsPeerAuthorized wm request pol ps t k ch ?ra")
  note eq = IsPeerAuthorized_eq [OF ad]
  show ?thesis
    using Some rt ad eq
    by (cases d; cases a)
       (simp_all add: IsAuthorized_def Let_def IsAuthorizedByPeerManifest_iff)
qed

text \<open>
  In the policy phase a denial overrides every allowance, and the decision depends on
  the ACLs and on the rules of each ACL as sets only: their order is irrelevant.
\<close>

lemma policy_deny_overrides_allow:
  assumes "IsPeerAuthorized wm request pol ps t k ch
             (authByPolicy (GenRight C request \<lparr>authByPolicy = 0\<rparr>)) = (a, True)"
    and "ResolveTrust C pmo ps auth = (t, k, ch, enforce)"
  shows "\<not> IsAuthorized C wm request (Some pol) ps pmo auth"
  using assms by (simp add: IsAuthorized_def Let_def)

lemma AclDenies_cong:
  "GetPeers acl = GetPeers acl' \<Longrightarrow> set (GetRules acl) = set (GetRules acl') \<Longrightarrow>
     AclDenies wm request ps t k ch ra acl = AclDenies wm request ps t k ch ra acl'"
  by (simp add: AclDenies_def IsPeerQualifiedForAcl_def list_ex_iff)

lemma AclAllows_cong:
  "GetPeers acl = GetPeers acl' \<Longrightarrow> set (GetRules acl) = set (GetRules acl') \<Longrightarrow>
     AclAllows wm request ps t k ch ra acl = AclAllows wm request ps t k ch ra acl'"
  by (simp add: AclAllows_def IsPeerQualifiedForAcl_def list_ex_iff)

lemma ex_acl_cong:
  assumes "(\<lambda>a. (GetPeers a, set (GetRules a))) ` set acls
             = (\<lambda>a. (GetPeers a, set (GetRules a))) ` set acls'"
    and "\<And>x y. GetPeers x = GetPeers y \<Longrightarrow> set (GetRules x) = set (GetRules y) \<Longrightarrow> P x = P y"
  shows "(\<exists>a \<in> set acls. P a) = (\<exists>a \<in> set acls'. P a)"
proof -
  have one: "(\<exists>a \<in> set ys. P a)"
    if img: "(\<lambda>a. (GetPeers a, set (GetRules a))) ` set xs
               \<subseteq> (\<lambda>a. (GetPeers a, set (GetRules a))) ` set ys"
      and ex: "\<exists>a \<in> set xs. P a" for xs ys
  proof -
    from ex obtain a where a: "a \<in> set xs" "P a" by blast
    with img obtain b where b: "b \<in> set ys" "(GetPeers a, set (GetRules a)) = (GetPeers b, set (GetRules b))"
      by blast
    with assms(2) [of a b] a have "P b" by simp
    with b show ?thesis by blast
  qed
  show ?thesis
    using one [of acls acls'] one [of acls' acls] assms(1) by blast
qed

lemma policy_verdict_order_independent:
  assumes "(\<lambda>a. (GetPeers a, set (GetRules a))) ` set (GetAcls pol)
             = (\<lambda>a. (GetPeers a, set (GetRules a))) ` set (GetAcls pol')"
  shows "IsAuthorized C wm request (Some pol) ps pmo auth
           = IsAuthorized C wm request (Some pol') ps pmo auth"
proof -
  obtain t k ch enforce where rt: "ResolveTrust C pmo ps auth = (t, k, ch, enforce)"
    by (cases "ResolveTrust C pmo ps auth") auto
  let ?ra = "authByPolicy (GenRight C request \<lparr>authByPolicy = 0\<rparr>)"
  have d: "(\<exists>acl \<in> set (GetAcls pol). AclDenies wm request ps t k ch ?ra acl)
             = (\<exists>acl \<in> set (GetAcls pol'). AclDenies wm request ps t k ch ?ra acl)"
    by (rule ex_acl_cong [OF assms]) (rule AclDenies_cong)
  have a: "(\<exists>acl \<in> set (GetAcls pol). AclAllows wm request ps t k ch ?ra acl)
             = (\<exists>acl \<in> set (GetAcls pol'). AclAllows wm request ps t k ch ?ra acl)"
    by (rule ex_acl_cong [OF assms]) (rule AclAllows_cong)
  show ?thesis
    unfolding IsAuthorized_eq Let_def option.case rt prod.case d a by (rule refl)
qed

section \<open>Properties of the classifier\<close>

lemma ParsePropertiesMessage_mbrType:
  "ParsePropertiesMessage E request msg = Inr request' \<Longrightarrow> mbrType request' \<noteq> METHOD_CALL"
  by (auto simp: ParsePropertiesMessage_def Let_def split: if_splits prod.splits)

lemma ClassifyMessage_plain:
  "\<not> IsPropertyInterface C (GetInterface msg) \<Longrightarrow> ClassifyMessage C E out msg = Inr request \<Longrightarrow>
     iName request = GetInterface msg
     \<and> mbrType request = (if GetMessageType msg = MESSAGE_METHOD_CALL then METHOD_CALL
                           else if GetMessageType msg = MESSAGE_SIGNAL then SIGNAL
                           else NOT_SPECIFIED)"
  by (auto simp: ClassifyMessage_def Request_of_msg_def Let_def)

lemma ClassifyMessage_property:
  "IsPropertyInterface C (GetInterface msg) \<Longrightarrow> ClassifyMessage C E out msg = Inr request \<Longrightarrow>
     mbrType request \<noteq> METHOD_CALL"
  using ParsePropertiesMessage_mbrType [of E "Request_of_msg msg out" msg request]
  by (simp add: ClassifyMessage_def Let_def)

lemma AuthorizeMessage_unclaimed:
  assumes "GetMessageType msg = MESSAGE_METHOD_CALL \<or> GetMessageType msg = MESSAGE_SIGNAL"
    and "\<not> IsStdInterface C (GetInterface msg)"
    and "ClassifyMessage C E out msg = Inr request"
    and "\<not> HasTrustAnchors pmo"
    and "\<not> (IsPermissionMgmtInterface C (iName request)
             \<and> fst (AuthorizePermissionMgmt C pmo out (iName request) (mbrName request) ps))"
  shows "AuthorizeMessage C E (Some pmo) policy out msg ps auth =
           (if IsPermissionMgmtInterface C (iName request) \<and> mbrType request = METHOD_CALL
            then ER_PERMISSION_DENIED else ER_OK)"
  using assms by (auto simp: AuthorizeMessage_def Let_def)

section \<open>The claims\<close>

text \<open>
  Claim C1, as the code has it. A request whose member type is \<^verbatim>\<open>NOT_SPECIFIED\<close> and
  that is not a property request derives the right zero, and \<^verbatim>\<open>IsAuthorized\<close> then
  returns false: the policy block is skipped and \<^verbatim>\<open>authorized\<close> keeps its initial value.
\<close>

theorem unspecified_request_not_authorized:
  assumes "mbrType request = NOT_SPECIFIED" and "\<not> propertyRequest request"
  shows "authByPolicy (GenRight C request \<lparr>authByPolicy = 0\<rparr>) = 0
         \<and> \<not> IsAuthorized C wm request policy peerState permissionMgmtObj authenticated"
proof -
  from assms have "GenRight C request \<lparr>authByPolicy = 0\<rparr> = \<lparr>authByPolicy = 0\<rparr>"
    by (simp add: GenRight_def)
  then show ?thesis
    by (simp add: IsAuthorized_def)
qed

theorem unspecified_request_not_authorized_witness:
  "mbrType ExUnspecifiedRequest = NOT_SPECIFIED \<and> \<not> propertyRequest ExUnspecifiedRequest
   \<and> authByPolicy (GenRight AllJoynConstants ExUnspecifiedRequest \<lparr>authByPolicy = 0\<rparr>) = 0
   \<and> \<not> IsAuthorized AllJoynConstants StarMatch ExUnspecifiedRequest None ExNoManifestPeer
          ExClaimedPmo False"
proof -
  have t: "mbrType ExUnspecifiedRequest = NOT_SPECIFIED"
    and p: "\<not> propertyRequest ExUnspecifiedRequest"
    by (simp_all add: ExUnspecifiedRequest_def)
  from unspecified_request_not_authorized [OF t p] t p show ?thesis
    by blast
qed

text \<open>
  Claim C1 as stated (the decision is "authorized") fails: with a policy that grants
  everything to everybody, the request without a right is still not authorized.
\<close>

theorem unspecified_request_counterexample:
  "mbrType ExUnspecifiedRequest = NOT_SPECIFIED \<and> \<not> propertyRequest ExUnspecifiedRequest
   \<and> authByPolicy (GenRight AllJoynConstants ExUnspecifiedRequest \<lparr>authByPolicy = 0\<rparr>) = 0
   \<and> \<not> IsAuthorized AllJoynConstants StarMatch ExUnspecifiedRequest (Some ExOpenPolicy)
          ExGrantingManifestPeer ExClaimedPmo True"
  by code_simp

text \<open>
  Claim C2, the manifest part. The comment above \<^verbatim>\<open>IsAuthorizedByPeerManifest\<close> says
  that a manifest that denies the access denies it no matter what. The rule
  \<open>ExDenyAllRule\<close> is an explicit deny rule (the policy scan reports it as denied), a
  peer presents it in its first manifest and a grant in its second one, and the manifest
  check and the whole decision still authorize the method call: the manifest rules are
  matched with \<^verbatim>\<open>scanForDenied = false\<close>.
\<close>

theorem manifest_deny_rule_is_not_honoured:
  "IsRuleMatched StarMatch ExDenyAllRule ExMethodCall 4 True False False = (False, True)
   \<and> GetManifests ExDenyingManifestPeer = [[ExDenyAllRule], [ExAllowAllRule]]
   \<and> authByPolicy (GenRight AllJoynConstants ExMethodCall \<lparr>authByPolicy = 0\<rparr>) = 4
   \<and> IsAuthorizedByPeerManifest StarMatch ExMethodCall \<lparr>authByPolicy = 4\<rparr> ExDenyingManifestPeer
   \<and> IsAuthorized AllJoynConstants StarMatch ExMethodCall (Some ExOpenPolicy)
        ExDenyingManifestPeer ExClaimedPmo True"
  by code_simp

text \<open>
  Claim C3. For a policy of one ACL the policy evaluator returns what the ACL evaluator
  returns when it is given the flag of the peer qualifier as \<^verbatim>\<open>scanForDenied\<close>. For
  every policy, the evaluation reports denied exactly when the peer qualified for some
  ACL by an exact public key and a rule of that ACL is an explicit deny that matches.
  The flag is set only through a \<^verbatim>\<open>PEER_WITH_PUBLIC_KEY\<close> entry that carries the key
  of the trusted peer; when it is not set, no rule of the ACL sets denied and the ACL
  allows exactly when one of its rules matches. For every policy that is not denied, the
  evaluation allows exactly when the peer qualifies for some ACL one of whose rules
  matches under the flag of that ACL; so a matching grant of an ACL reached without an
  exact key applies wherever the ACL stands in the policy. For a policy that is denied,
  the evaluation stopped at the first ACL that denies, which the peer reached by an
  exact key, and the value returned is the disjunction of the grants of the ACLs before
  it and of the rules of that ACL before the denying one.
\<close>

theorem deny_scan_only_for_exact_key:
  "IsPeerAuthorized wm request \<lparr>GetAcls = [acl]\<rparr> ps trusted key chain ra =
     (if fst (IsPeerQualifiedForAcl acl ps trusted key chain) then
        IsPolicyAclMatched wm acl request ra
          (snd (IsPeerQualifiedForAcl acl ps trusted key chain)) False
      else (False, False))
   \<and> snd (IsPeerAuthorized wm request policy ps trusted key chain ra) =
       (\<exists>a \<in> set (GetAcls policy).
           IsPeerQualifiedForAcl a ps trusted key chain = (True, True)
           \<and> (\<exists>r \<in> set (GetRules a).
                 snd (IsRuleMatched wm r request ra True False (outgoing request))))
   \<and> (snd (IsPeerQualifiedForAcl acl ps trusted key chain) \<longrightarrow>
        trusted \<and> key \<noteq> None
        \<and> (\<exists>p \<in> set (GetPeers acl). GetType p = PEER_WITH_PUBLIC_KEY \<and> GetKeyInfo p = key))
   \<and> (\<not> snd (IsPeerQualifiedForAcl acl ps trusted key chain) \<longrightarrow>
        IsPolicyAclMatched wm acl request ra
          (snd (IsPeerQualifiedForAcl acl ps trusted key chain)) False =
          (\<exists>r \<in> set (GetRules acl).
              fst (IsRuleMatched wm r request ra False False (outgoing request)), False))
   \<and> (\<not> snd (IsPeerAuthorized wm request policy ps trusted key chain ra) \<longrightarrow>
        fst (IsPeerAuthorized wm request policy ps trusted key chain ra) =
          (\<exists>a \<in> set (GetAcls policy).
              fst (IsPeerQualifiedForAcl a ps trusted key chain)
              \<and> (\<exists>r \<in> set (GetRules a).
                    fst (IsRuleMatched wm r request ra
                           (snd (IsPeerQualifiedForAcl a ps trusted key chain)) False
                           (outgoing request)))))
   \<and> (acl \<in> set (GetAcls policy)
        \<and> fst (IsPeerQualifiedForAcl acl ps trusted key chain)
        \<and> \<not> snd (IsPeerQualifiedForAcl acl ps trusted key chain)
        \<and> (\<exists>r \<in> set (GetRules acl).
              fst (IsRuleMatched wm r request ra False False (outgoing request)))
        \<and> \<not> snd (IsPeerAuthorized wm request policy ps trusted key chain ra) \<longrightarrow>
        fst (IsPeerAuthorized wm request policy ps trusted key chain ra))
   \<and> (snd (IsPeerAuthorized wm request policy ps trusted key chain ra) \<longrightarrow>
        (\<exists>pre a post. GetAcls policy = pre @ a # post
           \<and> IsPeerQualifiedForAcl a ps trusted key chain = (True, True)
           \<and> snd (IsPolicyAclMatched wm a request ra True False)
           \<and> (\<forall>x \<in> set pre.
                 \<not> (IsPeerQualifiedForAcl x ps trusted key chain = (True, True)
                    \<and> (\<exists>r \<in> set (GetRules x).
                          snd (IsRuleMatched wm r request ra True False (outgoing request)))))
           \<and> fst (IsPeerAuthorized wm request policy ps trusted key chain ra) =
               ((\<exists>x \<in> set pre.
                    fst (IsPeerQualifiedForAcl x ps trusted key chain)
                    \<and> (\<exists>r \<in> set (GetRules x).
                          fst (IsRuleMatched wm r request ra
                                 (snd (IsPeerQualifiedForAcl x ps trusted key chain)) False
                                 (outgoing request))))
                \<or> fst (IsPolicyAclMatched wm a request ra True False))))"
proof -
  obtain q f where qf: "IsPeerQualifiedForAcl acl ps trusted key chain = (q, f)"
    by (cases "IsPeerQualifiedForAcl acl ps trusted key chain")
  obtain m d where md: "IsPolicyAclMatched wm acl request ra f False = (m, d)"
    by (cases "IsPolicyAclMatched wm acl request ra f False")
  have single: "IsPeerAuthorized wm request \<lparr>GetAcls = [acl]\<rparr> ps trusted key chain ra =
     (if fst (IsPeerQualifiedForAcl acl ps trusted key chain) then
        IsPolicyAclMatched wm acl request ra
          (snd (IsPeerQualifiedForAcl acl ps trusted key chain)) False
      else (False, False))"
    using qf md by (simp add: IsPeerAuthorized_def)
  have denied: "snd (IsPeerAuthorized wm request policy ps trusted key chain ra) =
       (\<exists>a \<in> set (GetAcls policy).
           IsPeerQualifiedForAcl a ps trusted key chain = (True, True)
           \<and> (\<exists>r \<in> set (GetRules a).
                 snd (IsRuleMatched wm r request ra True False (outgoing request))))"
    by (simp add: IsPeerAuthorized_def ScanAcls_denied AclDenies_exact_key)
  have exact: "snd (IsPeerQualifiedForAcl acl ps trusted key chain) \<longrightarrow>
        trusted \<and> key \<noteq> None
        \<and> (\<exists>p \<in> set (GetPeers acl). GetType p = PEER_WITH_PUBLIC_KEY \<and> GetKeyInfo p = key)"
    using ScanPeers_exact_key [of ps trusted key chain "GetPeers acl"]
    unfolding IsPeerQualifiedForAcl_def by blast
  have nd: "\<not> snd (IsPolicyAclMatched wm acl request ra False False)"
    by (simp add: IsPolicyAclMatched_denied IsRuleMatched_no_scan)
  have other: "\<not> snd (IsPeerQualifiedForAcl acl ps trusted key chain) \<longrightarrow>
        IsPolicyAclMatched wm acl request ra
          (snd (IsPeerQualifiedForAcl acl ps trusted key chain)) False =
          (\<exists>r \<in> set (GetRules acl).
              fst (IsRuleMatched wm r request ra False False (outgoing request)), False)"
    using IsPolicyAclMatched_allowed [OF nd] nd
    by (cases "IsPolicyAclMatched wm acl request ra False False") simp
  let ?ipa = "IsPeerAuthorized wm request policy ps trusted key chain ra"
  obtain a0 d0 where ad: "?ipa = (a0, d0)"
    by (cases ?ipa)
  have granted: "\<not> snd ?ipa \<longrightarrow>
        fst ?ipa =
          (\<exists>a \<in> set (GetAcls policy).
              fst (IsPeerQualifiedForAcl a ps trusted key chain)
              \<and> (\<exists>r \<in> set (GetRules a).
                    fst (IsRuleMatched wm r request ra
                           (snd (IsPeerQualifiedForAcl a ps trusted key chain)) False
                           (outgoing request))))"
    using IsPeerAuthorized_eq [OF ad] ad by (simp add: AclAllows_iff)
  have applies: "acl \<in> set (GetAcls policy)
        \<and> fst (IsPeerQualifiedForAcl acl ps trusted key chain)
        \<and> \<not> snd (IsPeerQualifiedForAcl acl ps trusted key chain)
        \<and> (\<exists>r \<in> set (GetRules acl).
              fst (IsRuleMatched wm r request ra False False (outgoing request)))
        \<and> \<not> snd ?ipa \<longrightarrow> fst ?ipa"
  proof (intro impI)
    assume h: "acl \<in> set (GetAcls policy)
        \<and> fst (IsPeerQualifiedForAcl acl ps trusted key chain)
        \<and> \<not> snd (IsPeerQualifiedForAcl acl ps trusted key chain)
        \<and> (\<exists>r \<in> set (GetRules acl).
              fst (IsRuleMatched wm r request ra False False (outgoing request)))
        \<and> \<not> snd ?ipa"
    then have "AclAllows wm request ps trusted key chain ra acl"
      by (simp add: AclAllows_iff)
    with h have "\<exists>a \<in> set (GetAcls policy). AclAllows wm request ps trusted key chain ra a"
      by blast
    with h IsPeerAuthorized_eq [OF ad] ad show "fst ?ipa"
      by simp
  qed
  have stopped: "snd ?ipa \<longrightarrow>
        (\<exists>pre a post. GetAcls policy = pre @ a # post
           \<and> IsPeerQualifiedForAcl a ps trusted key chain = (True, True)
           \<and> snd (IsPolicyAclMatched wm a request ra True False)
           \<and> (\<forall>x \<in> set pre.
                 \<not> (IsPeerQualifiedForAcl x ps trusted key chain = (True, True)
                    \<and> (\<exists>r \<in> set (GetRules x).
                          snd (IsRuleMatched wm r request ra True False (outgoing request)))))
           \<and> fst ?ipa =
               ((\<exists>x \<in> set pre.
                    fst (IsPeerQualifiedForAcl x ps trusted key chain)
                    \<and> (\<exists>r \<in> set (GetRules x).
                          fst (IsRuleMatched wm r request ra
                                 (snd (IsPeerQualifiedForAcl x ps trusted key chain)) False
                                 (outgoing request))))
                \<or> fst (IsPolicyAclMatched wm a request ra True False)))"
  proof (intro impI)
    assume "snd ?ipa"
    with ad have "ScanAcls wm request ps trusted key chain ra (GetAcls policy) False False
                    = (a0, True)"
      by (simp add: IsPeerAuthorized_def)
    from ScanAcls_first_denial [OF this] obtain pre a post where
      p: "GetAcls policy = pre @ a # post"
         "\<forall>x \<in> set pre. \<not> AclDenies wm request ps trusted key chain ra x"
         "AclDenies wm request ps trusted key chain ra a"
         "a0 = (False \<or> (\<exists>x \<in> set pre. AclAllows wm request ps trusted key chain ra x)
                \<or> fst (IsPolicyAclMatched wm a request ra
                          (snd (IsPeerQualifiedForAcl a ps trusted key chain)) False))"
      by blast
    from p(3) have qa: "IsPeerQualifiedForAcl a ps trusted key chain = (True, True)"
      and ra: "\<exists>r \<in> set (GetRules a).
                 snd (IsRuleMatched wm r request ra True False (outgoing request))"
      by (simp_all add: AclDenies_exact_key)
    from ra have da: "snd (IsPolicyAclMatched wm a request ra True False)"
      by (simp add: IsPolicyAclMatched_denied)
    from p(2) have np: "\<forall>x \<in> set pre.
                 \<not> (IsPeerQualifiedForAcl x ps trusted key chain = (True, True)
                    \<and> (\<exists>r \<in> set (GetRules x).
                          snd (IsRuleMatched wm r request ra True False (outgoing request))))"
      by (simp add: AclDenies_exact_key)
    from p(4) qa ad have fa: "fst ?ipa =
               ((\<exists>x \<in> set pre.
                    fst (IsPeerQualifiedForAcl x ps trusted key chain)
                    \<and> (\<exists>r \<in> set (GetRules x).
                          fst (IsRuleMatched wm r request ra
                                 (snd (IsPeerQualifiedForAcl x ps trusted key chain)) False
                                 (outgoing request))))
                \<or> fst (IsPolicyAclMatched wm a request ra True False))"
      by (simp add: AclAllows_iff)
    from p(1) qa da np fa show "\<exists>pre a post. GetAcls policy = pre @ a # post
           \<and> IsPeerQualifiedForAcl a ps trusted key chain = (True, True)
           \<and> snd (IsPolicyAclMatched wm a request ra True False)
           \<and> (\<forall>x \<in> set pre.
                 \<not> (IsPeerQualifiedForAcl x ps trusted key chain = (True, True)
                    \<and> (\<exists>r \<in> set (GetRules x).
                          snd (IsRuleMatched wm r request ra True False (outgoing request)))))
           \<and> fst ?ipa =
               ((\<exists>x \<in> set pre.
                    fst (IsPeerQualifiedForAcl x ps trusted key chain)
                    \<and> (\<exists>r \<in> set (GetRules x).
                          fst (IsRuleMatched wm r request ra
                                 (snd (IsPeerQualifiedForAcl x ps trusted key chain)) False
                                 (outgoing request))))
                \<or> fst (IsPolicyAclMatched wm a request ra True False))"
      by blast
  qed
  from single denied exact other granted applies stopped show ?thesis
    by blast
qed

theorem deny_scan_only_for_exact_key_witness:
  "IsPeerQualifiedForAcl ExAnyTrustedAcl ExGrantingManifestPeer True (Some (1, 2)) [] = (True, False)
   \<and> IsPeerAuthorized StarMatch ExMethodCall \<lparr>GetAcls = [ExAnyTrustedAcl]\<rparr>
        ExGrantingManifestPeer True (Some (1, 2)) [] 4 = (True, False)
   \<and> (\<exists>r \<in> set (GetRules ExAnyTrustedAcl).
         fst (IsRuleMatched StarMatch r ExMethodCall 4 False False (outgoing ExMethodCall)))
   \<and> IsPeerQualifiedForAcl ExExactKeyAcl ExGrantingManifestPeer True (Some (1, 2)) [] = (True, True)
   \<and> IsPeerAuthorized StarMatch ExMethodCall \<lparr>GetAcls = [ExExactKeyAcl]\<rparr>
        ExGrantingManifestPeer True (Some (1, 2)) [] 4 = (True, True)
   \<and> (\<exists>p \<in> set (GetPeers ExExactKeyAcl).
         GetType p = PEER_WITH_PUBLIC_KEY \<and> GetKeyInfo p = Some (1, 2))
   \<and> IsPeerAuthorized StarMatch ExMethodCall ExGrantAfterNoMatchPolicy
        ExGrantingManifestPeer True (Some (1, 2)) [] 4 = (True, False)
   \<and> IsPeerAuthorized StarMatch ExMethodCall ExGrantBeforeNoMatchPolicy
        ExGrantingManifestPeer True (Some (1, 2)) [] 4 = (True, False)
   \<and> snd (IsPeerAuthorized StarMatch ExMethodCall ExDenyAfterGrantPolicy
             ExGrantingManifestPeer True (Some (1, 2)) [] 4)
   \<and> (\<exists>pre a post. GetAcls ExDenyAfterGrantPolicy = pre @ a # post
         \<and> IsPeerQualifiedForAcl a ExGrantingManifestPeer True (Some (1, 2)) [] = (True, True)
         \<and> fst (IsPeerAuthorized StarMatch ExMethodCall ExDenyAfterGrantPolicy
                  ExGrantingManifestPeer True (Some (1, 2)) [] 4) =
             ((\<exists>x \<in> set pre.
                  fst (IsPeerQualifiedForAcl x ExGrantingManifestPeer True (Some (1, 2)) [])
                  \<and> (\<exists>r \<in> set (GetRules x).
                        fst (IsRuleMatched StarMatch r ExMethodCall 4
                               (snd (IsPeerQualifiedForAcl x ExGrantingManifestPeer True
                                       (Some (1, 2)) [])) False (outgoing ExMethodCall))))
              \<or> fst (IsPolicyAclMatched StarMatch a ExMethodCall 4 True False)))"
proof -
  have q: "IsPeerQualifiedForAcl ExAnyTrustedAcl ExGrantingManifestPeer True (Some (1, 2)) []
             = (True, False)"
    and e: "IsPeerQualifiedForAcl ExExactKeyAcl ExGrantingManifestPeer True (Some (1, 2)) []
             = (True, True)"
    and m1: "IsPolicyAclMatched StarMatch ExAnyTrustedAcl ExMethodCall 4 False False = (True, False)"
    and m2: "IsPolicyAclMatched StarMatch ExExactKeyAcl ExMethodCall 4 True False = (True, True)"
    by code_simp+
  note any = deny_scan_only_for_exact_key
    [where wm = StarMatch and request = ExMethodCall and acl = ExAnyTrustedAcl
       and ps = ExGrantingManifestPeer and trusted = True and key = "Some (1, 2)"
       and chain = "[]" and ra = 4 and policy = "\<lparr>GetAcls = []\<rparr>"]
  note exact = deny_scan_only_for_exact_key
    [where wm = StarMatch and request = ExMethodCall and acl = ExExactKeyAcl
       and ps = ExGrantingManifestPeer and trusted = True and key = "Some (1, 2)"
       and chain = "[]" and ra = 4 and policy = "\<lparr>GetAcls = []\<rparr>"]
  from any have
    "IsPeerAuthorized StarMatch ExMethodCall \<lparr>GetAcls = [ExAnyTrustedAcl]\<rparr>
        ExGrantingManifestPeer True (Some (1, 2)) [] 4 =
     (if fst (IsPeerQualifiedForAcl ExAnyTrustedAcl ExGrantingManifestPeer True (Some (1, 2)) [])
      then IsPolicyAclMatched StarMatch ExAnyTrustedAcl ExMethodCall 4
             (snd (IsPeerQualifiedForAcl ExAnyTrustedAcl ExGrantingManifestPeer True
                     (Some (1, 2)) [])) False
      else (False, False))"
    by (rule conjunct1)
  then have a1: "IsPeerAuthorized StarMatch ExMethodCall \<lparr>GetAcls = [ExAnyTrustedAcl]\<rparr>
        ExGrantingManifestPeer True (Some (1, 2)) [] 4 = (True, False)"
    by (simp only: q m1 fst_conv snd_conv if_True)
  from q have ns: "\<not> snd (IsPeerQualifiedForAcl ExAnyTrustedAcl ExGrantingManifestPeer True
                         (Some (1, 2)) [])"
    by (simp only: snd_conv simp_thms)
  from any ns have
    "IsPolicyAclMatched StarMatch ExAnyTrustedAcl ExMethodCall 4
       (snd (IsPeerQualifiedForAcl ExAnyTrustedAcl ExGrantingManifestPeer True (Some (1, 2)) []))
       False =
     (\<exists>r \<in> set (GetRules ExAnyTrustedAcl).
         fst (IsRuleMatched StarMatch r ExMethodCall 4 False False (outgoing ExMethodCall)), False)"
    by blast
  then have g: "\<exists>r \<in> set (GetRules ExAnyTrustedAcl).
         fst (IsRuleMatched StarMatch r ExMethodCall 4 False False (outgoing ExMethodCall))"
    by (simp only: q m1 snd_conv prod.inject simp_thms)
  from exact have
    "IsPeerAuthorized StarMatch ExMethodCall \<lparr>GetAcls = [ExExactKeyAcl]\<rparr>
        ExGrantingManifestPeer True (Some (1, 2)) [] 4 =
     (if fst (IsPeerQualifiedForAcl ExExactKeyAcl ExGrantingManifestPeer True (Some (1, 2)) [])
      then IsPolicyAclMatched StarMatch ExExactKeyAcl ExMethodCall 4
             (snd (IsPeerQualifiedForAcl ExExactKeyAcl ExGrantingManifestPeer True
                     (Some (1, 2)) [])) False
      else (False, False))"
    by (rule conjunct1)
  then have a2: "IsPeerAuthorized StarMatch ExMethodCall \<lparr>GetAcls = [ExExactKeyAcl]\<rparr>
        ExGrantingManifestPeer True (Some (1, 2)) [] 4 = (True, True)"
    by (simp only: e m2 fst_conv snd_conv if_True)
  from e have s: "snd (IsPeerQualifiedForAcl ExExactKeyAcl ExGrantingManifestPeer True
                         (Some (1, 2)) [])"
    by (simp only: snd_conv)
  from exact s have
    "\<exists>p \<in> set (GetPeers ExExactKeyAcl). GetType p = PEER_WITH_PUBLIC_KEY \<and> GetKeyInfo p = Some (1, 2)"
    by blast
  then have k: "\<exists>p \<in> set (GetPeers ExExactKeyAcl).
                  GetType p = PEER_WITH_PUBLIC_KEY \<and> GetKeyInfo p = Some (1, 2)" .
  from q have fq: "fst (IsPeerQualifiedForAcl ExAnyTrustedAcl ExGrantingManifestPeer True
                          (Some (1, 2)) [])"
    by (simp only: fst_conv)
  have in1: "ExAnyTrustedAcl \<in> set (GetAcls ExGrantAfterNoMatchPolicy)"
    and in2: "ExAnyTrustedAcl \<in> set (GetAcls ExGrantBeforeNoMatchPolicy)"
    by (simp_all add: ExGrantAfterNoMatchPolicy_def ExGrantBeforeNoMatchPolicy_def)
  have nd1: "\<not> snd (IsPeerAuthorized StarMatch ExMethodCall ExGrantAfterNoMatchPolicy
                      ExGrantingManifestPeer True (Some (1, 2)) [] 4)"
    and nd2: "\<not> snd (IsPeerAuthorized StarMatch ExMethodCall ExGrantBeforeNoMatchPolicy
                      ExGrantingManifestPeer True (Some (1, 2)) [] 4)"
    and d3: "snd (IsPeerAuthorized StarMatch ExMethodCall ExDenyAfterGrantPolicy
                    ExGrantingManifestPeer True (Some (1, 2)) [] 4)"
    by code_simp+
  from in1 fq ns g nd1 deny_scan_only_for_exact_key
    [where wm = StarMatch and request = ExMethodCall and acl = ExAnyTrustedAcl
       and ps = ExGrantingManifestPeer and trusted = True and key = "Some (1, 2)"
       and chain = "[]" and ra = 4 and policy = ExGrantAfterNoMatchPolicy]
  have f1: "fst (IsPeerAuthorized StarMatch ExMethodCall ExGrantAfterNoMatchPolicy
                   ExGrantingManifestPeer True (Some (1, 2)) [] 4)"
    by blast
  from in2 fq ns g nd2 deny_scan_only_for_exact_key
    [where wm = StarMatch and request = ExMethodCall and acl = ExAnyTrustedAcl
       and ps = ExGrantingManifestPeer and trusted = True and key = "Some (1, 2)"
       and chain = "[]" and ra = 4 and policy = ExGrantBeforeNoMatchPolicy]
  have f2: "fst (IsPeerAuthorized StarMatch ExMethodCall ExGrantBeforeNoMatchPolicy
                   ExGrantingManifestPeer True (Some (1, 2)) [] 4)"
    by blast
  from f1 nd1 have p1: "IsPeerAuthorized StarMatch ExMethodCall ExGrantAfterNoMatchPolicy
        ExGrantingManifestPeer True (Some (1, 2)) [] 4 = (True, False)"
    by (simp add: prod_eq_iff)
  from f2 nd2 have p2: "IsPeerAuthorized StarMatch ExMethodCall ExGrantBeforeNoMatchPolicy
        ExGrantingManifestPeer True (Some (1, 2)) [] 4 = (True, False)"
    by (simp add: prod_eq_iff)
  from d3 deny_scan_only_for_exact_key
    [where wm = StarMatch and request = ExMethodCall and acl = ExAnyTrustedAcl
       and ps = ExGrantingManifestPeer and trusted = True and key = "Some (1, 2)"
       and chain = "[]" and ra = 4 and policy = ExDenyAfterGrantPolicy]
  have p3: "\<exists>pre a post. GetAcls ExDenyAfterGrantPolicy = pre @ a # post
         \<and> IsPeerQualifiedForAcl a ExGrantingManifestPeer True (Some (1, 2)) [] = (True, True)
         \<and> fst (IsPeerAuthorized StarMatch ExMethodCall ExDenyAfterGrantPolicy
                  ExGrantingManifestPeer True (Some (1, 2)) [] 4) =
             ((\<exists>x \<in> set pre.
                  fst (IsPeerQualifiedForAcl x ExGrantingManifestPeer True (Some (1, 2)) [])
                  \<and> (\<exists>r \<in> set (GetRules x).
                        fst (IsRuleMatched StarMatch r ExMethodCall 4
                               (snd (IsPeerQualifiedForAcl x ExGrantingManifestPeer True
                                       (Some (1, 2)) [])) False (outgoing ExMethodCall))))
              \<or> fst (IsPolicyAclMatched StarMatch a ExMethodCall 4 True False))"
    by blast
  from q e a1 a2 g k p1 p2 d3 p3 show ?thesis
    by blast
qed

text \<open>
  Claim C4. When the rule matcher turns \<^verbatim>\<open>denied\<close> from false to true, it was asked to
  scan for a denial, the rule's object path and interface name are both \<^verbatim>\<open>*\<close>, and a
  member of the rule is named \<^verbatim>\<open>*\<close> with action mask 0. When it was not asked to scan,
  or the object path or the interface name is not \<^verbatim>\<open>*\<close>, \<^verbatim>\<open>denied\<close> is left as it was.
\<close>

theorem denied_only_by_wildcard_deny_rule:
  "(\<not> d \<and> snd (IsRuleMatched wm rule request ra scan d strict) \<longrightarrow>
      scan \<and> GetObjPath rule = ''*'' \<and> GetInterfaceName rule = ''*''
      \<and> (\<exists>m \<in> set (GetMembers rule). GetMemberName m = ''*'' \<and> GetActionMask m = 0))
   \<and> (\<not> scan \<or> GetObjPath rule \<noteq> ''*'' \<or> GetInterfaceName rule \<noteq> ''*'' \<longrightarrow>
        snd (IsRuleMatched wm rule request ra scan d strict) = d)"
  using IsRuleMatched_denied [of wm rule request ra scan d strict]
  by (cases "IsRuleMatched wm rule request ra scan d strict") auto

theorem denied_only_by_wildcard_deny_rule_witness:
  "snd (IsRuleMatched StarMatch ExDenyAllRule ExMethodCall 4 True False False)
   \<and> GetObjPath ExDenyAllRule = ''*'' \<and> GetInterfaceName ExDenyAllRule = ''*''
   \<and> (\<exists>m \<in> set (GetMembers ExDenyAllRule). GetMemberName m = ''*'' \<and> GetActionMask m = 0)
   \<and> GetObjPath ExNarrowDenyRule \<noteq> ''*''
   \<and> \<not> snd (IsRuleMatched StarMatch ExNarrowDenyRule ExMethodCall 4 True False False)
   \<and> \<not> snd (IsRuleMatched StarMatch ExDenyAllRule ExMethodCall 4 False False False)"
proof -
  have s: "snd (IsRuleMatched StarMatch ExDenyAllRule ExMethodCall 4 True False False)"
    by code_simp
  have n: "GetObjPath ExNarrowDenyRule \<noteq> ''*''"
    by (simp add: ExNarrowDenyRule_def)
  from s denied_only_by_wildcard_deny_rule
         [of False StarMatch ExDenyAllRule ExMethodCall 4 True False]
  have c1: "GetObjPath ExDenyAllRule = ''*'' \<and> GetInterfaceName ExDenyAllRule = ''*''
     \<and> (\<exists>m \<in> set (GetMembers ExDenyAllRule). GetMemberName m = ''*'' \<and> GetActionMask m = 0)"
    by blast
  from n denied_only_by_wildcard_deny_rule
         [of False StarMatch ExNarrowDenyRule ExMethodCall 4 True False]
  have c2: "\<not> snd (IsRuleMatched StarMatch ExNarrowDenyRule ExMethodCall 4 True False False)"
    by blast
  from denied_only_by_wildcard_deny_rule
         [of False StarMatch ExDenyAllRule ExMethodCall 4 False False]
  have c3: "\<not> snd (IsRuleMatched StarMatch ExDenyAllRule ExMethodCall 4 False False False)"
    by blast
  from s n c1 c2 c3 show ?thesis by blast
qed

text \<open>
  Claim C5, as the code has it. A method call or signal that is on a standard interface,
  or that passes classification and is not handled by \<^verbatim>\<open>AuthorizePermissionMgmt\<close>,
  is answered on a device without trust anchors by \<^verbatim>\<open>ER_PERMISSION_DENIED\<close> when it is
  a method call on a permission management interface and by \<^verbatim>\<open>ER_OK\<close> otherwise,
  whatever the policy is. (The last hypothesis says that the standard and the Properties
  interface names are not permission management names.)
\<close>

theorem unclaimed_device_rule:
  assumes "GetMessageType msg = MESSAGE_METHOD_CALL \<or> GetMessageType msg = MESSAGE_SIGNAL"
    and "\<not> HasTrustAnchors pmo"
    and "IsStdInterface C (GetInterface msg)
         \<or> (ClassifyMessage C E out msg = Inr request
             \<and> \<not> (IsPermissionMgmtInterface C (iName request)
                    \<and> fst (AuthorizePermissionMgmt C pmo out (iName request) (mbrName request) ps)))"
    and "IsStdInterface C (GetInterface msg) \<or> IsPropertyInterface C (GetInterface msg)
         \<longrightarrow> \<not> IsPermissionMgmtInterface C (GetInterface msg)"
  shows "AuthorizeMessage C E (Some pmo) policy out msg ps auth =
           (if GetMessageType msg = MESSAGE_METHOD_CALL
               \<and> IsPermissionMgmtInterface C (GetInterface msg)
            then ER_PERMISSION_DENIED else ER_OK)"
proof (cases "IsStdInterface C (GetInterface msg)")
  case True
  with assms(1,4) show ?thesis
    by (simp add: AuthorizeMessage_def)
next
  case False
  with assms(3) have cls: "ClassifyMessage C E out msg = Inr request"
    and unhandled: "\<not> (IsPermissionMgmtInterface C (iName request)
             \<and> fst (AuthorizePermissionMgmt C pmo out (iName request) (mbrName request) ps))"
    by auto
  note am = AuthorizeMessage_unclaimed [OF assms(1) False cls assms(2) unhandled, of policy auth]
  show ?thesis
  proof (cases "IsPropertyInterface C (GetInterface msg)")
    case True
    from ClassifyMessage_property [OF True cls] True assms(4) am show ?thesis
      by simp
  next
    case False
    from ClassifyMessage_plain [OF False cls] assms(1) am show ?thesis
      by auto
  qed
qed

theorem unclaimed_device_rule_witness:
  "AuthorizeMessage AllJoynConstants ExampleExternals (Some ExUnclaimedPmo) (Some ExOpenPolicy)
     False ExClaimableFooCall ExNoManifestPeer True = ER_PERMISSION_DENIED
   \<and> AuthorizeMessage AllJoynConstants ExampleExternals (Some ExUnclaimedPmo) None
       False ExPlainSignal ExNoManifestPeer True = ER_OK"
proof -
  let ?C = AllJoynConstants and ?E = ExampleExternals
  let ?r1 = "(Request_of_msg ExClaimableFooCall False)
               \<lparr>iName := GetInterface ExClaimableFooCall,
                mbrName := Some (GetMemberNameOf ExClaimableFooCall)\<rparr>"
  let ?r2 = "(Request_of_msg ExPlainSignal False)
               \<lparr>iName := GetInterface ExPlainSignal,
                mbrName := Some (GetMemberNameOf ExPlainSignal)\<rparr>"
  have t1: "GetMessageType ExClaimableFooCall = MESSAGE_METHOD_CALL
            \<or> GetMessageType ExClaimableFooCall = MESSAGE_SIGNAL"
    and t2: "GetMessageType ExPlainSignal = MESSAGE_METHOD_CALL
            \<or> GetMessageType ExPlainSignal = MESSAGE_SIGNAL"
    and u: "\<not> HasTrustAnchors ExUnclaimedPmo"
    and g1: "IsStdInterface ?C (GetInterface ExClaimableFooCall)
         \<or> (ClassifyMessage ?C ?E False ExClaimableFooCall = Inr ?r1
             \<and> \<not> (IsPermissionMgmtInterface ?C (iName ?r1)
                    \<and> fst (AuthorizePermissionMgmt ?C ExUnclaimedPmo False (iName ?r1) (mbrName ?r1)
                             ExNoManifestPeer)))"
    and g2: "IsStdInterface ?C (GetInterface ExPlainSignal)
         \<or> (ClassifyMessage ?C ?E False ExPlainSignal = Inr ?r2
             \<and> \<not> (IsPermissionMgmtInterface ?C (iName ?r2)
                    \<and> fst (AuthorizePermissionMgmt ?C ExUnclaimedPmo False (iName ?r2) (mbrName ?r2)
                             ExNoManifestPeer)))"
    and n1: "IsStdInterface ?C (GetInterface ExClaimableFooCall)
               \<or> IsPropertyInterface ?C (GetInterface ExClaimableFooCall)
         \<longrightarrow> \<not> IsPermissionMgmtInterface ?C (GetInterface ExClaimableFooCall)"
    and n2: "IsStdInterface ?C (GetInterface ExPlainSignal)
               \<or> IsPropertyInterface ?C (GetInterface ExPlainSignal)
         \<longrightarrow> \<not> IsPermissionMgmtInterface ?C (GetInterface ExPlainSignal)"
    and p1: "GetMessageType ExClaimableFooCall = MESSAGE_METHOD_CALL
             \<and> IsPermissionMgmtInterface ?C (GetInterface ExClaimableFooCall)"
    and p2: "\<not> (GetMessageType ExPlainSignal = MESSAGE_METHOD_CALL
             \<and> IsPermissionMgmtInterface ?C (GetInterface ExPlainSignal))"
    by code_simp+
  from unclaimed_device_rule [OF t1 u g1 n1, of "Some ExOpenPolicy" True] p1
  have c1: "AuthorizeMessage ?C ?E (Some ExUnclaimedPmo) (Some ExOpenPolicy)
     False ExClaimableFooCall ExNoManifestPeer True = ER_PERMISSION_DENIED"
    by (simp only: if_True simp_thms)
  from unclaimed_device_rule [OF t2 u g2 n2, of None True] p2
  have c2: "AuthorizeMessage ?C ?E (Some ExUnclaimedPmo) None
       False ExPlainSignal ExNoManifestPeer True = ER_OK"
    by (simp only: if_False simp_thms)
  from c1 c2 show ?thesis ..
qed

text \<open>
  Claim C5 as stated fails for a message that does not pass classification: a
  \<^verbatim>\<open>Get\<close> call on the Properties interface without arguments, sent to an unclaimed
  device, is answered by \<^verbatim>\<open>ER_INVALID_DATA\<close>, which is neither of the two answers of
  the claim.
\<close>

theorem unclaimed_device_counterexample:
  "GetMessageType (ExMessage MESSAGE_METHOD_CALL ''org.freedesktop.DBus.Properties'' ''Get'' [])
     = MESSAGE_METHOD_CALL
   \<and> \<not> HasTrustAnchors ExUnclaimedPmo
   \<and> AuthorizeMessage AllJoynConstants ExampleExternals (Some ExUnclaimedPmo) None False
        (ExMessage MESSAGE_METHOD_CALL ''org.freedesktop.DBus.Properties'' ''Get'' [])
        ExNoManifestPeer True = ER_INVALID_DATA"
  by code_simp




text \<open>
  Claim C7, as the code has it. \<^verbatim>\<open>ParsePropertiesMessage\<close> fails with \<^verbatim>\<open>ER_FAIL\<close> when
  the member name starts with none of \<^verbatim>\<open>GetAll\<close>, \<^verbatim>\<open>Get\<close>, \<^verbatim>\<open>Set\<close> and
  \<^verbatim>\<open>PropertiesChanged\<close>; it fails with \<^verbatim>\<open>ER_INVALID_DATA\<close> when a \<^verbatim>\<open>Get\<close> or \<^verbatim>\<open>Set\<close>
  has fewer than two arguments, a \<^verbatim>\<open>PropertiesChanged\<close> has none, or an outgoing
  \<^verbatim>\<open>GetAll\<close> has none. For a method call or signal on the Properties interface, every
  failure of the parser is the result of \<^verbatim>\<open>AuthorizeMessage\<close>, whatever the permission
  management object and the policy are.
\<close>

theorem properties_classification_errors:
  "(take 6 (GetMemberNameOf msg) \<noteq> ''GetAll'' \<and> take 3 (GetMemberNameOf msg) \<noteq> ''Get''
      \<and> take 3 (GetMemberNameOf msg) \<noteq> ''Set''
      \<and> take 17 (GetMemberNameOf msg) \<noteq> ''PropertiesChanged''
      \<longrightarrow> ParsePropertiesMessage E request msg = Inl ER_FAIL)
   \<and> (take 6 (GetMemberNameOf msg) \<noteq> ''GetAll''
        \<and> (take 3 (GetMemberNameOf msg) = ''Get'' \<or> take 3 (GetMemberNameOf msg) = ''Set'')
        \<and> length (if outgoing request then RefArgs msg else Args msg) < 2
      \<longrightarrow> ParsePropertiesMessage E request msg = Inl ER_INVALID_DATA)
   \<and> (take 17 (GetMemberNameOf msg) = ''PropertiesChanged''
        \<and> length (if outgoing request then RefArgs msg else Args msg) < 1
      \<longrightarrow> ParsePropertiesMessage E request msg = Inl ER_INVALID_DATA)
   \<and> (take 6 (GetMemberNameOf msg) = ''GetAll'' \<and> outgoing request \<and> length (RefArgs msg) < 1
      \<longrightarrow> ParsePropertiesMessage E request msg = Inl ER_INVALID_DATA)
   \<and> ((GetMessageType msg = MESSAGE_METHOD_CALL \<or> GetMessageType msg = MESSAGE_SIGNAL)
        \<and> \<not> IsStdInterface C (GetInterface msg) \<and> IsPropertyInterface C (GetInterface msg)
        \<and> ParsePropertiesMessage E (Request_of_msg msg out) msg = Inl status
      \<longrightarrow> AuthorizeMessage C E permissionMgmtObj policy out msg peerState authenticated = status)"
proof -
  let ?mbr = "GetMemberNameOf msg"
  have unknown: "take 6 ?mbr \<noteq> ''GetAll'' \<and> take 3 ?mbr \<noteq> ''Get'' \<and> take 3 ?mbr \<noteq> ''Set''
      \<and> take 17 ?mbr \<noteq> ''PropertiesChanged''
      \<longrightarrow> ParsePropertiesMessage E request msg = Inl ER_FAIL"
    by (simp add: ParsePropertiesMessage_def)
  have getset: "take 6 ?mbr \<noteq> ''GetAll'' \<and> (take 3 ?mbr = ''Get'' \<or> take 3 ?mbr = ''Set'')
        \<and> length (if outgoing request then RefArgs msg else Args msg) < 2
      \<longrightarrow> ParsePropertiesMessage E request msg = Inl ER_INVALID_DATA"
    by (simp add: ParsePropertiesMessage_def Let_def)
  have changed: "take 17 ?mbr = ''PropertiesChanged''
        \<and> length (if outgoing request then RefArgs msg else Args msg) < 1
      \<longrightarrow> ParsePropertiesMessage E request msg = Inl ER_INVALID_DATA"
  proof (intro impI)
    assume a: "take 17 ?mbr = ''PropertiesChanged''
        \<and> length (if outgoing request then RefArgs msg else Args msg) < 1"
    have "take 3 ?mbr = take 3 (take 17 ?mbr)" "take 6 ?mbr = take 6 (take 17 ?mbr)"
      by simp_all
    with a have "take 3 ?mbr = ''Pro''" "take 6 ?mbr = ''Proper''"
      by simp_all
    with a show "ParsePropertiesMessage E request msg = Inl ER_INVALID_DATA"
      by (simp add: ParsePropertiesMessage_def Let_def)
  qed
  have getall: "take 6 ?mbr = ''GetAll'' \<and> outgoing request \<and> length (RefArgs msg) < 1
      \<longrightarrow> ParsePropertiesMessage E request msg = Inl ER_INVALID_DATA"
    by (simp add: ParsePropertiesMessage_def)
  have propagate: "(GetMessageType msg = MESSAGE_METHOD_CALL \<or> GetMessageType msg = MESSAGE_SIGNAL)
        \<and> \<not> IsStdInterface C (GetInterface msg) \<and> IsPropertyInterface C (GetInterface msg)
        \<and> ParsePropertiesMessage E (Request_of_msg msg out) msg = Inl status
      \<longrightarrow> AuthorizeMessage C E permissionMgmtObj policy out msg peerState authenticated = status"
    by (auto simp: AuthorizeMessage_def ClassifyMessage_def Let_def)
  from unknown getset changed getall propagate show ?thesis
    by blast
qed

theorem properties_classification_errors_witness:
  "ParsePropertiesMessage ExampleExternals (Request_of_msg ExShortGetCall False) ExShortGetCall
       = Inl ER_INVALID_DATA
   \<and> AuthorizeMessage AllJoynConstants ExampleExternals (Some ExClaimedPmo) (Some ExOpenPolicy)
       False ExShortGetCall ExGrantingManifestPeer True = ER_INVALID_DATA
   \<and> ParsePropertiesMessage ExampleExternals (Request_of_msg ExUnknownMemberCall False)
        ExUnknownMemberCall = Inl ER_FAIL
   \<and> ParsePropertiesMessage ExampleExternals (Request_of_msg ExEmptyChangedSignal False)
        ExEmptyChangedSignal = Inl ER_INVALID_DATA
   \<and> ParsePropertiesMessage ExampleExternals (Request_of_msg ExEmptyGetAllCall True)
        ExEmptyGetAllCall = Inl ER_INVALID_DATA"
proof -
  let ?C = AllJoynConstants and ?E = ExampleExternals
  let ?r = "Request_of_msg ExShortGetCall False"
  let ?u = "Request_of_msg ExUnknownMemberCall False"
  let ?c = "Request_of_msg ExEmptyChangedSignal False"
  let ?g = "Request_of_msg ExEmptyGetAllCall True"
  have h: "take 6 (GetMemberNameOf ExShortGetCall) \<noteq> ''GetAll''
        \<and> (take 3 (GetMemberNameOf ExShortGetCall) = ''Get''
            \<or> take 3 (GetMemberNameOf ExShortGetCall) = ''Set'')
        \<and> length (if outgoing ?r then RefArgs ExShortGetCall else Args ExShortGetCall) < 2"
    and m: "(GetMessageType ExShortGetCall = MESSAGE_METHOD_CALL
             \<or> GetMessageType ExShortGetCall = MESSAGE_SIGNAL)
        \<and> \<not> IsStdInterface ?C (GetInterface ExShortGetCall)
        \<and> IsPropertyInterface ?C (GetInterface ExShortGetCall)"
    and hu: "take 6 (GetMemberNameOf ExUnknownMemberCall) \<noteq> ''GetAll''
        \<and> take 3 (GetMemberNameOf ExUnknownMemberCall) \<noteq> ''Get''
        \<and> take 3 (GetMemberNameOf ExUnknownMemberCall) \<noteq> ''Set''
        \<and> take 17 (GetMemberNameOf ExUnknownMemberCall) \<noteq> ''PropertiesChanged''"
    and hc: "take 17 (GetMemberNameOf ExEmptyChangedSignal) = ''PropertiesChanged''
        \<and> length (if outgoing ?c then RefArgs ExEmptyChangedSignal
                   else Args ExEmptyChangedSignal) < 1"
    and hg: "take 6 (GetMemberNameOf ExEmptyGetAllCall) = ''GetAll'' \<and> outgoing ?g
        \<and> length (RefArgs ExEmptyGetAllCall) < 1"
    by code_simp+
  note t = properties_classification_errors
    [where msg = ExShortGetCall and E = ?E and request = ?r and C = ?C and out = False
       and status = ER_INVALID_DATA and permissionMgmtObj = "Some ExClaimedPmo"
       and policy = "Some ExOpenPolicy" and peerState = ExGrantingManifestPeer
       and authenticated = True]
  from t h have p: "ParsePropertiesMessage ?E ?r ExShortGetCall = Inl ER_INVALID_DATA"
    by blast
  from t m p have a: "AuthorizeMessage ?C ?E (Some ExClaimedPmo) (Some ExOpenPolicy)
       False ExShortGetCall ExGrantingManifestPeer True = ER_INVALID_DATA"
    by blast
  from hu properties_classification_errors
         [where msg = ExUnknownMemberCall and E = ?E and request = ?u]
  have u: "ParsePropertiesMessage ?E ?u ExUnknownMemberCall = Inl ER_FAIL"
    by blast
  from hc properties_classification_errors
         [where msg = ExEmptyChangedSignal and E = ?E and request = ?c]
  have c: "ParsePropertiesMessage ?E ?c ExEmptyChangedSignal = Inl ER_INVALID_DATA"
    by blast
  from hg properties_classification_errors
         [where msg = ExEmptyGetAllCall and E = ?E and request = ?g]
  have g: "ParsePropertiesMessage ?E ?g ExEmptyGetAllCall = Inl ER_INVALID_DATA"
    by blast
  from p a u c g show ?thesis
    by blast
qed

text \<open>
  Claim C7 as stated fails for an unknown member: \<^verbatim>\<open>Foo\<close> on the Properties interface
  fails with \<^verbatim>\<open>ER_FAIL\<close>, not with the "invalid data" error.
\<close>

theorem unknown_property_member_counterexample:
  "IsPropertyInterface AllJoynConstants ''org.freedesktop.DBus.Properties''
   \<and> ParsePropertiesMessage ExampleExternals
        (Request_of_msg (ExMessage MESSAGE_METHOD_CALL ''org.freedesktop.DBus.Properties''
                           ''Foo'' [Some ''org.x'']) False)
        (ExMessage MESSAGE_METHOD_CALL ''org.freedesktop.DBus.Properties'' ''Foo'' [Some ''org.x''])
       = Inl ER_FAIL
   \<and> AuthorizeMessage AllJoynConstants ExampleExternals (Some ExClaimedPmo) (Some ExOpenPolicy)
        False
        (ExMessage MESSAGE_METHOD_CALL ''org.freedesktop.DBus.Properties'' ''Foo'' [Some ''org.x''])
        ExGrantingManifestPeer True = ER_FAIL
   \<and> ER_FAIL \<noteq> ER_INVALID_DATA"
  by code_simp

text \<open>
  Claim C8. A rule without members, with an empty object path or with an empty interface
  name never matches, and leaves \<^verbatim>\<open>denied\<close> as it was.
\<close>

theorem degenerate_rule_never_matches:
  assumes "GetMembers rule = [] \<or> GetObjPath rule = [] \<or> GetInterfaceName rule = []"
  shows "IsRuleMatched wm rule request requiredAuth scanForDenied denied strict = (False, denied)"
  using assms by (auto simp: IsRuleMatched_def)

theorem degenerate_rule_never_matches_witness:
  "GetMembers ExNoMembersRule = []
   \<and> IsRuleMatched StarMatch ExNoMembersRule ExMethodCall 4 True False False = (False, False)
   \<and> GetObjPath ExEmptyPathRule = []
   \<and> IsRuleMatched StarMatch ExEmptyPathRule ExMethodCall 4 True False False = (False, False)
   \<and> GetInterfaceName ExEmptyInterfaceRule = []
   \<and> IsRuleMatched StarMatch ExEmptyInterfaceRule ExMethodCall 4 True False False = (False, False)"
proof -
  have m: "GetMembers ExNoMembersRule = []" by (simp add: ExNoMembersRule_def)
  have p: "GetObjPath ExEmptyPathRule = []" by (simp add: ExEmptyPathRule_def)
  have i: "GetInterfaceName ExEmptyInterfaceRule = []" by (simp add: ExEmptyInterfaceRule_def)
  show ?thesis
    using m p i
      degenerate_rule_never_matches [of ExNoMembersRule StarMatch ExMethodCall 4 True False False]
      degenerate_rule_never_matches [of ExEmptyPathRule StarMatch ExMethodCall 4 True False False]
      degenerate_rule_never_matches [of ExEmptyInterfaceRule StarMatch ExMethodCall 4 True False False]
    by simp
qed

text \<open>
  Claim C9. When the peer's public key is not available, the peer qualifies for an ACL
  exactly when the ACL has a \<^verbatim>\<open>PEER_ALL\<close> entry or, for a trusted peer, a
  \<^verbatim>\<open>PEER_ANY_TRUSTED\<close> entry, and never by an exact key; public key, certificate
  authority and membership entries are skipped.
\<close>

theorem no_public_key_qualifies_only_by_all_or_any_trusted:
  "IsPeerQualifiedForAcl acl peerState trustedPeer None issuerChain =
     (\<exists>p \<in> set (GetPeers acl).
         GetType p = PEER_ALL \<or> (trustedPeer \<and> GetType p = PEER_ANY_TRUSTED), False)"
  by (simp add: IsPeerQualifiedForAcl_def ScanPeers_no_key)

theorem no_public_key_qualifies_only_by_all_or_any_trusted_witness:
  "IsPeerQualifiedForAcl ExIdentifiedAcl ExMemberPeer True None [(3, 4)] = (False, False)
   \<and> IsPeerQualifiedForAcl ExIdentifiedAcl ExMemberPeer True (Some (5, 6)) [(3, 4)] = (True, False)
   \<and> IsPeerQualifiedForAcl ExIdentifiedAcl ExMemberPeer True (Some (5, 6)) [] = (True, False)
   \<and> IsPeerQualifiedForAcl ExIdentifiedAcl ExMemberPeer True (Some (1, 2)) [] = (True, True)"
proof -
  have "IsPeerQualifiedForAcl ExIdentifiedAcl ExMemberPeer True None [(3, 4)] = (False, False)"
    using no_public_key_qualifies_only_by_all_or_any_trusted
            [of ExIdentifiedAcl ExMemberPeer True "[(3, 4)]"]
    by (simp add: ExIdentifiedAcl_def)
  moreover have
    "IsPeerQualifiedForAcl ExIdentifiedAcl ExMemberPeer True (Some (5, 6)) [(3, 4)] = (True, False)"
    "IsPeerQualifiedForAcl ExIdentifiedAcl ExMemberPeer True (Some (5, 6)) [] = (True, False)"
    "IsPeerQualifiedForAcl ExIdentifiedAcl ExMemberPeer True (Some (1, 2)) [] = (True, True)"
    by code_simp+
  ultimately show ?thesis by simp
qed

text \<open>
  Claim C10. A call of the rule matcher that sets \<^verbatim>\<open>denied\<close> returns false. When the
  ACL evaluator reports denied, a rule of the ACL returned (false, denied), no rule
  before it reported denied, and the value returned is the disjunction of the matches
  of the rules before it: the denying rule adds nothing to \<^verbatim>\<open>allowed\<close>.
\<close>

theorem never_both_matched_and_denied:
  "(\<not> d \<and> snd (IsRuleMatched wm rule request ra scan d strict) \<longrightarrow>
      \<not> fst (IsRuleMatched wm rule request ra scan d strict))
   \<and> (snd (IsPolicyAclMatched wm acl request ra scan False) \<longrightarrow>
        (\<exists>pre r post. GetRules acl = pre @ r # post
           \<and> IsRuleMatched wm r request ra scan False (outgoing request) = (False, True)
           \<and> (\<forall>x \<in> set pre. \<not> snd (IsRuleMatched wm x request ra scan False (outgoing request)))
           \<and> fst (IsPolicyAclMatched wm acl request ra scan False)
               = (\<exists>x \<in> set pre. fst (IsRuleMatched wm x request ra scan False (outgoing request)))))"
proof (intro conjI impI)
  assume "\<not> d \<and> snd (IsRuleMatched wm rule request ra scan d strict)"
  then show "\<not> fst (IsRuleMatched wm rule request ra scan d strict)"
    using IsRuleMatched_denied [of wm rule request ra scan d strict]
    by (cases "IsRuleMatched wm rule request ra scan d strict") auto
next
  assume den: "snd (IsPolicyAclMatched wm acl request ra scan False)"
  obtain a where
    "ScanRules wm request ra scan (outgoing request) (GetRules acl) False False = (a, True)"
    using den
    by (cases "ScanRules wm request ra scan (outgoing request) (GetRules acl) False False")
       (simp add: IsPolicyAclMatched_def)
  from ScanRules_first_denial [OF this] this
  show "\<exists>pre r post. GetRules acl = pre @ r # post
           \<and> IsRuleMatched wm r request ra scan False (outgoing request) = (False, True)
           \<and> (\<forall>x \<in> set pre. \<not> snd (IsRuleMatched wm x request ra scan False (outgoing request)))
           \<and> fst (IsPolicyAclMatched wm acl request ra scan False)
               = (\<exists>x \<in> set pre. fst (IsRuleMatched wm x request ra scan False (outgoing request)))"
    by (simp add: IsPolicyAclMatched_def)
qed

theorem never_both_matched_and_denied_witness:
  "snd (IsRuleMatched StarMatch ExDenyAllRule ExMethodCall 4 True False False)
   \<and> \<not> fst (IsRuleMatched StarMatch ExDenyAllRule ExMethodCall 4 True False False)
   \<and> IsPolicyAclMatched StarMatch ExExactKeyAcl ExMethodCall 4 True False = (True, True)
   \<and> (\<exists>pre r post. GetRules ExExactKeyAcl = pre @ r # post
         \<and> IsRuleMatched StarMatch r ExMethodCall 4 True False False = (False, True))"
proof -
  have s: "snd (IsRuleMatched StarMatch ExDenyAllRule ExMethodCall 4 True False False)"
    by code_simp
  have a: "IsPolicyAclMatched StarMatch ExExactKeyAcl ExMethodCall 4 True False = (True, True)"
    by code_simp
  have o: "outgoing ExMethodCall = False"
    by (simp add: ExMethodCall_def)
  show ?thesis
    using s a o
      never_both_matched_and_denied [of False StarMatch ExDenyAllRule ExMethodCall 4 True False
                                        ExExactKeyAcl]
    by auto
qed

end
